theory Spec2Isabelle
  imports Complex_Main "HOL-Library.Word" "HOL-Library.Monad_Syntax"
begin

unbundle bit_operations_syntax

section \<open>Data model of the master (main.c)\<close>

type_synonym u64 = "64 word"
type_synonym u32 = "32 word"

text \<open>A \<^verbatim>\<open>struct remote*\<close> is a handle into the store of remotes.\<close>
type_synonym rid = nat

type_synonym keycode_t = nat
type_synonym mousebutton_t = nat

text \<open>
  A C \<^verbatim>\<open>float\<close> is modelled by the rational number it denotes; the arithmetic of
  \<^verbatim>\<open>transition_brightness\<close> rounds every result to binary32 (see \<open>fl32\<close> below).
\<close>
type_synonym float = rat

datatype direction_t = LEFT | RIGHT | UP | DOWN
datatype connstate_t = CS_SETTINGUP | CS_CONNECTED | CS_FAILED | CS_PERMFAILED
datatype edgeevent_t = EE_DEPART | EE_ARRIVE
datatype pressrel_t = PR_PRESS | PR_RELEASE
datatype focus_hint_type = FH_NONE | FH_DIM_INACTIVE | FH_FLASH_ACTIVE
datatype mouseswitch_type = MS_NONE | MS_MULTITAP
datatype nullswitch_t = NS_NO | NS_YES | NS_HOTKEYONLY

datatype noderef = NT_NONE | NT_MASTER | NT_REMOTE rid | NT_REMOTE_TMPNAME string

datatype msgbody =
    MT_SETUP nat "(string \<times> string) list"
  | MT_READY
  | MT_KEYEVENT keycode_t pressrel_t
  | MT_MOVEREL int int
  | MT_CLICKEVENT mousebutton_t pressrel_t
  | MT_SETMOUSEPOSSCREENREL float float
  | MT_GETCLIPBOARD
  | MT_SETCLIPBOARD string
  | MT_SETBRIGHTNESS float
  | MT_EDGEMASKCHANGE u32 u32 float float
  | MT_LOGMSG string

record message =
  body :: msgbody
  sendtime :: u64

definition new_message :: "msgbody \<Rightarrow> message" where
  "new_message b = \<lparr>body = b, sendtime = 0\<rparr>"

text \<open>
  A function pointer handed to \<^verbatim>\<open>schedule_call\<close>. The master itself only ever
  passes \<^verbatim>\<open>set_brightness_cb\<close>; \<open>Extern_fn k\<close> stands for any other function the
  signature \<^verbatim>\<open>void (*fn)(void* arg)\<close> admits, its behaviour given by a code table.
\<close>
datatype fnptr = Set_brightness_cb | Extern_fn nat

record scheduled_call =
  fn :: fnptr
  arg :: float
  calltime :: u64

text \<open>The array \<^verbatim>\<open>event_times[EDGESTATE_HISTLEN]\<close> is a function of the index.\<close>
record edge_state =
  last_evtype :: edgeevent_t
  evidx :: int
  event_times :: "int \<Rightarrow> u64"

text \<open>
  Modelled from the spec: the message channel (msgchan.c is not part of the sources).
  Only the outbound buffer is kept; \<open>enqueue\<close> adds to it and reports failure when the
  backlog exceeds the quota, \<open>close\<close> discards the buffers.
\<close>
record msgchan =
  sendqueue :: "message list"

definition mc_enqueue_message :: "nat \<Rightarrow> msgchan \<Rightarrow> message \<Rightarrow> bool \<times> msgchan" where
  "mc_enqueue_message quota mc msg =
     (let q = sendqueue mc @ [msg] in (quota < length q, mc\<lparr>sendqueue := q\<rparr>))"

definition mc_close :: "msgchan \<Rightarrow> msgchan" where
  "mc_close mc = mc\<lparr>sendqueue := []\<rparr>"

definition mc_init :: "msgchan \<Rightarrow> msgchan" where
  "mc_init mc = mc\<lparr>sendqueue := []\<rparr>"

record remote =
  r_alias :: string
  params :: "(string \<times> string) list"
  neighbors :: "direction_t \<Rightarrow> noderef"
  state :: connstate_t
  failcount :: int
  next_reconnect_time :: u64
  sshpid :: int
  msgchan :: msgchan
  scheduled_messages :: "message list"
  edgehist :: "direction_t \<Rightarrow> edge_state"

record focus_hint =
  fh_type :: focus_hint_type
  brightness :: float
  duration :: u64
  fade_steps :: int

record mouseswitch =
  ms_type :: mouseswitch_type
  num :: int
  window :: u64

text \<open>
  \<^verbatim>\<open>struct config\<close>, immutable once the event loop runs. The last four fields are
  constants declared outside main.c and taken as parameters: the channel's quota, the
  platform's \<^verbatim>\<open>screen_center\<close>, and \<^verbatim>\<open>EDGESTATE_HISTLEN\<close> and \<^verbatim>\<open>PROT_VERSION\<close> of the
  headers.
\<close>
record config =
  remote_list :: "rid list"
  master_neighbors :: "direction_t \<Rightarrow> noderef"
  cfg_focus_hint :: focus_hint
  cfg_mouseswitch :: mouseswitch
  show_nullswitch :: nullswitch_t
  max_send_backlog :: nat
  screen_center :: "int \<times> int"
  EDGESTATE_HISTLEN :: int
  PROT_VERSION :: nat

text \<open>
  Modelled from the spec: the platform driver (platform.h is not part of the sources).
  The calls that act on the display server are kept as a trace; the pointer position,
  the clipboard text and the modifier keys held are what the query functions return.
\<close>
datatype platform_call =
    Grab_inputs
  | Ungrab_inputs
  | Set_mousepos "int \<times> int"
  | Set_mousepos_screenrel float float
  | Set_display_brightness float
  | Set_clipboard_from_buf string

record platform =
  pointer :: "int \<times> int"
  clipboard :: string
  held_modifiers :: "keycode_t list"
  calls :: "platform_call list"

text \<open>The globals of main.c, the store of remotes, the platform and the clock.\<close>
record mstate =
  focused_remote :: "rid option"
  remotes :: "rid \<Rightarrow> remote"
  scheduled_calls :: "scheduled_call list"
  saved_master_mousepos :: "int \<times> int"
  master_edgehist :: "direction_t \<Rightarrow> edge_state"
  cfg :: config
  plat :: platform
  microtime :: u64
  stderr_log :: "string list"

definition upd_remote :: "rid \<Rightarrow> (remote \<Rightarrow> remote) \<Rightarrow> mstate \<Rightarrow> mstate" where
  "upd_remote r f s = s\<lparr>remotes := (remotes s)(r := f (remotes s r))\<rparr>"

definition platform_do :: "platform_call \<Rightarrow> mstate \<Rightarrow> mstate" where
  "platform_do c s = s\<lparr>plat := (plat s)\<lparr>calls := calls (plat s) @ [c]\<rparr>\<rparr>"

definition grab_inputs :: "mstate \<Rightarrow> mstate" where
  "grab_inputs = platform_do Grab_inputs"

definition ungrab_inputs :: "mstate \<Rightarrow> mstate" where
  "ungrab_inputs = platform_do Ungrab_inputs"

definition get_mousepos :: "mstate \<Rightarrow> int \<times> int" where
  "get_mousepos s = pointer (plat s)"

definition set_mousepos :: "int \<times> int \<Rightarrow> mstate \<Rightarrow> mstate" where
  "set_mousepos pt s = platform_do (Set_mousepos pt) (s\<lparr>plat := (plat s)\<lparr>pointer := pt\<rparr>\<rparr>)"

definition set_mousepos_screenrel :: "float \<Rightarrow> float \<Rightarrow> mstate \<Rightarrow> mstate" where
  "set_mousepos_screenrel x y = platform_do (Set_mousepos_screenrel x y)"

definition set_display_brightness :: "float \<Rightarrow> mstate \<Rightarrow> mstate" where
  "set_display_brightness f = platform_do (Set_display_brightness f)"

definition get_clipboard_text :: "mstate \<Rightarrow> string" where
  "get_clipboard_text s = clipboard (plat s)"

definition set_clipboard_from_buf :: "string \<Rightarrow> mstate \<Rightarrow> mstate" where
  "set_clipboard_from_buf buf s =
     platform_do (Set_clipboard_from_buf buf) (s\<lparr>plat := (plat s)\<lparr>clipboard := buf\<rparr>\<rparr>)"

definition get_current_modifiers :: "mstate \<Rightarrow> keycode_t list" where
  "get_current_modifiers s = held_modifiers (plat s)"

definition get_microtime :: "mstate \<Rightarrow> u64" where
  "get_microtime s = microtime s"

text \<open>\<^verbatim>\<open>elog\<close> in master mode prints to stderr.\<close>
definition elog :: "string \<Rightarrow> mstate \<Rightarrow> mstate" where
  "elog str s = s\<lparr>stderr_log := stderr_log s @ [str]\<rparr>"

section \<open>The scheduler\<close>

text \<open>The list walk of \<^verbatim>\<open>schedule_call\<close>: stop at the first later entry.\<close>
fun insert_call :: "scheduled_call \<Rightarrow> scheduled_call list \<Rightarrow> scheduled_call list" where
  "insert_call newcall [] = [newcall]"
| "insert_call newcall (call # rest) =
     (if calltime newcall < calltime call then newcall # call # rest
      else call # insert_call newcall rest)"

definition schedule_call :: "fnptr \<Rightarrow> float \<Rightarrow> u64 \<Rightarrow> mstate \<Rightarrow> mstate" where
  "schedule_call f a when s =
     s\<lparr>scheduled_calls :=
          insert_call \<lparr>fn = f, arg = a, calltime = when\<rparr> (scheduled_calls s)\<rparr>"

text \<open>The list walk of \<^verbatim>\<open>schedule_message\<close>.\<close>
fun insert_message :: "message \<Rightarrow> message list \<Rightarrow> message list" where
  "insert_message newmsg [] = [newmsg]"
| "insert_message newmsg (msg # rest) =
     (if sendtime newmsg < sendtime msg then newmsg # msg # rest
      else msg # insert_message newmsg rest)"

definition schedule_message :: "rid \<Rightarrow> message \<Rightarrow> mstate \<Rightarrow> mstate" where
  "schedule_message r newmsg =
     upd_remote r (\<lambda>rmt. rmt\<lparr>scheduled_messages := insert_message newmsg (scheduled_messages rmt)\<rparr>)"

definition set_brightness_cb :: "float \<Rightarrow> mstate \<Rightarrow> mstate" where
  "set_brightness_cb fp = set_display_brightness fp"

text \<open>Calling through a function pointer; \<open>ext\<close> is the code behind \<open>Extern_fn\<close>.\<close>
definition call_fn :: "(nat \<Rightarrow> float \<Rightarrow> mstate \<Rightarrow> mstate) \<Rightarrow> scheduled_call \<Rightarrow> mstate \<Rightarrow> mstate" where
  "call_fn ext call s =
     (case fn call of Set_brightness_cb \<Rightarrow> set_brightness_cb (arg call) s
      | Extern_fn k \<Rightarrow> ext k (arg call) s)"

text \<open>
  \<^verbatim>\<open>run_scheduled_calls\<close> re-reads the global list head on every iteration. A callback
  may put entries back, so the loop need not end: \<open>None\<close> is the run that never returns.
\<close>
partial_function (option) run_scheduled_calls ::
  "(nat \<Rightarrow> float \<Rightarrow> mstate \<Rightarrow> mstate) \<Rightarrow> u64 \<Rightarrow> mstate \<Rightarrow> mstate option" where
  "run_scheduled_calls ext when s =
     (case scheduled_calls s of
        [] \<Rightarrow> Some s
      | call # rest \<Rightarrow>
          if calltime call \<le> when
          then run_scheduled_calls ext when (call_fn ext call (s\<lparr>scheduled_calls := rest\<rparr>))
          else Some s)"

declare run_scheduled_calls.simps [code]

section \<open>Remote lifecycle and focus controller\<close>

text \<open>
  \<^verbatim>\<open>enqueue_message\<close> calls \<^verbatim>\<open>fail_remote\<close>, which through \<^verbatim>\<open>disconnect_remote\<close>,
  \<^verbatim>\<open>focus_master\<close> and \<^verbatim>\<open>focus_node\<close> comes back to \<^verbatim>\<open>enqueue_message\<close>. The functions
  in between take that callee as the parameter \<open>H\<close>; \<open>fail_remote\<close> closes the cycle
  below. A result \<open>None\<close> is a call that does not return to its caller: the process
  aborts on a failed assertion, or the recursion never ends.
\<close>
type_synonym handler = "rid \<Rightarrow> string \<Rightarrow> mstate \<Rightarrow> mstate option"

fun mfold :: "('a \<Rightarrow> 's \<Rightarrow> 's option) \<Rightarrow> 'a list \<Rightarrow> 's \<Rightarrow> 's option" where
  "mfold f [] s = Some s"
| "mfold f (x # xs) s = Option.bind (f x s) (mfold f xs)"

definition enqueue_message :: "handler \<Rightarrow> rid \<Rightarrow> message \<Rightarrow> mstate \<Rightarrow> mstate option" where
  "enqueue_message H r msg s =
     (case mc_enqueue_message (max_send_backlog (cfg s)) (msgchan (remotes s r)) msg of
        (failed, mc) \<Rightarrow>
          let s' = upd_remote r (\<lambda>rmt. rmt\<lparr>msgchan := mc\<rparr>) s
          in if failed then H r ''send backlog exceeded'' s' else Some s')"

definition UINT32_MAX :: nat where
  "UINT32_MAX = 4294967295"

definition transfer_clipboard :: "handler \<Rightarrow> rid option \<Rightarrow> rid option \<Rightarrow> mstate \<Rightarrow> mstate option" where
  "transfer_clipboard H from to s =
     (if from = None \<and> to = None then Some (elog ''switching from master to master??'' s)
      else case from of
        Some f \<Rightarrow> enqueue_message H f (new_message MT_GETCLIPBOARD) s
      | None \<Rightarrow>
          (case to of
             Some t \<Rightarrow>
               let text = get_clipboard_text s
               in if length text \<le> UINT32_MAX
                  then enqueue_message H t (new_message (MT_SETCLIPBOARD text)) s
                  else None
           | None \<Rightarrow> Some s))"

definition transfer_modifiers ::
  "handler \<Rightarrow> rid option \<Rightarrow> rid option \<Rightarrow> keycode_t list \<Rightarrow> mstate \<Rightarrow> mstate option" where
  "transfer_modifiers H from to modkeys s = do {
     s1 \<leftarrow> (case from of
             Some f \<Rightarrow> mfold (\<lambda>k. enqueue_message H f (new_message (MT_KEYEVENT k PR_RELEASE))) modkeys s
           | None \<Rightarrow> Some s);
     case to of
       Some t \<Rightarrow> mfold (\<lambda>k. enqueue_message H t (new_message (MT_KEYEVENT k PR_PRESS))) modkeys s1
     | None \<Rightarrow> Some s1
   }"

definition send_keyevent :: "handler \<Rightarrow> rid option \<Rightarrow> keycode_t \<Rightarrow> pressrel_t \<Rightarrow> mstate \<Rightarrow> mstate option" where
  "send_keyevent H rmt kc pr s =
     (case rmt of None \<Rightarrow> Some s
      | Some r \<Rightarrow> enqueue_message H r (new_message (MT_KEYEVENT kc pr)) s)"

definition send_moverel :: "handler \<Rightarrow> rid option \<Rightarrow> int \<Rightarrow> int \<Rightarrow> mstate \<Rightarrow> mstate option" where
  "send_moverel H rmt dx dy s =
     (case rmt of None \<Rightarrow> Some s
      | Some r \<Rightarrow> enqueue_message H r (new_message (MT_MOVEREL dx dy)) s)"

definition send_clickevent ::
  "handler \<Rightarrow> rid option \<Rightarrow> mousebutton_t \<Rightarrow> pressrel_t \<Rightarrow> mstate \<Rightarrow> mstate option" where
  "send_clickevent H rmt button pr s =
     (case rmt of None \<Rightarrow> Some s
      | Some r \<Rightarrow> enqueue_message H r (new_message (MT_CLICKEVENT button pr)) s)"

definition send_setbrightness :: "handler \<Rightarrow> rid option \<Rightarrow> float \<Rightarrow> mstate \<Rightarrow> mstate option" where
  "send_setbrightness H rmt f s =
     (case rmt of None \<Rightarrow> Some s
      | Some r \<Rightarrow> enqueue_message H r (new_message (MT_SETBRIGHTNESS f)) s)"

definition set_node_display_brightness ::
  "handler \<Rightarrow> rid option \<Rightarrow> float \<Rightarrow> mstate \<Rightarrow> mstate option" where
  "set_node_display_brightness H rmt f s =
     (case rmt of None \<Rightarrow> Some (set_display_brightness f s)
      | Some r \<Rightarrow> send_setbrightness H (Some r) f s)"

definition schedule_brightness_change :: "rid option \<Rightarrow> float \<Rightarrow> u64 \<Rightarrow> mstate \<Rightarrow> mstate" where
  "schedule_brightness_change rmt f when s =
     (case rmt of
        Some r \<Rightarrow> schedule_message r ((new_message (MT_SETBRIGHTNESS f))\<lparr>sendtime := when\<rparr>) s
      | None \<Rightarrow> schedule_call Set_brightness_cb f when s)"

subsection \<open>Single-precision arithmetic\<close>

text \<open>
  Round to nearest, ties to even, with a 24-bit significand and the subnormal exponent
  floor of binary32. Every operation is evaluated in single precision
  (\<^verbatim>\<open>FLT_EVAL_METHOD\<close> 0). Overflow to infinity is outside this model: the values
  in play are brightness levels and microsecond counts below \<open>2 ^ 64\<close>.
\<close>
text \<open>The number of binary digits of a positive integer.\<close>
function bitlen_int :: "int \<Rightarrow> int" where
  "bitlen_int n = (if n \<le> 0 then 0 else 1 + bitlen_int (n div 2))"
  by pat_completeness auto

termination
  by (relation "measure nat") auto

declare bitlen_int.simps [simp del]

definition pow2 :: "int \<Rightarrow> rat" where
  "pow2 e = (if 0 \<le> e then 2 ^ nat e else 1 / 2 ^ nat (- e))"

definition flog2 :: "rat \<Rightarrow> int" where
  "flog2 a =
     (case quotient_of a of
        (p, q) \<Rightarrow>
          let d = bitlen_int p - bitlen_int q
          in if pow2 d \<le> a then d else d - 1)"

definition round_half_even :: "rat \<Rightarrow> int" where
  "round_half_even x =
     (let f = \<lfloor>x\<rfloor>; d = x - of_int f
      in if d < 1 / 2 then f
         else if 1 / 2 < d then f + 1
         else if even f then f else f + 1)"

definition fl32 :: "rat \<Rightarrow> float" where
  "fl32 x =
     (if x = 0 then 0
      else let a = \<bar>x\<bar>;
               e = max (flog2 a - 23) (- 149);
               m = round_half_even (a / pow2 e)
           in sgn x * of_int m * pow2 e)"

definition i2f :: "int \<Rightarrow> float" where
  "i2f i = fl32 (of_int i)"

definition u2f :: "u64 \<Rightarrow> float" where
  "u2f w = fl32 (of_int (uint w))"

definition fdiv :: "float \<Rightarrow> float \<Rightarrow> float" where
  "fdiv a b = fl32 (a / b)"

definition fmul :: "float \<Rightarrow> float \<Rightarrow> float" where
  "fmul a b = fl32 (a * b)"

definition fadd :: "float \<Rightarrow> float \<Rightarrow> float" where
  "fadd a b = fl32 (a + b)"

definition fsub :: "float \<Rightarrow> float \<Rightarrow> float" where
  "fsub a b = fl32 (a - b)"

text \<open>The cast \<^verbatim>\<open>(uint64_t)f\<close> truncates towards zero.\<close>
definition f2u64 :: "float \<Rightarrow> u64" where
  "f2u64 x = word_of_int (if 0 \<le> x then \<lfloor>x\<rfloor> else - \<lfloor>- x\<rfloor>)"

subsection \<open>Brightness hints\<close>

text \<open>One iteration of the \<^verbatim>\<open>for\<close> loop of \<^verbatim>\<open>transition_brightness\<close>.\<close>
definition transition_step ::
  "rid option \<Rightarrow> float \<Rightarrow> float \<Rightarrow> u64 \<Rightarrow> int \<Rightarrow> u64 \<Rightarrow> int \<Rightarrow> mstate \<Rightarrow> mstate" where
  "transition_step node from to dur steps now_us i s =
     (let frac = fdiv (i2f i) (i2f steps);
          time = now_us + f2u64 (fmul frac (u2f dur));
          level = fadd from (fmul frac (fsub to from))
      in schedule_brightness_change node level time s)"

definition transition_brightness ::
  "handler \<Rightarrow> rid option \<Rightarrow> float \<Rightarrow> float \<Rightarrow> u64 \<Rightarrow> int \<Rightarrow> mstate \<Rightarrow> mstate option" where
  "transition_brightness H node from to dur steps s = do {
     let now_us = get_microtime s;
     s1 \<leftarrow> set_node_display_brightness H node from s;
     let s2 = fold (transition_step node from to dur steps now_us) (map int [1..<nat steps]) s1;
     Some (schedule_brightness_change node to (now_us + dur) s2)
   }"

definition indicate_switch :: "handler \<Rightarrow> rid option \<Rightarrow> rid option \<Rightarrow> mstate \<Rightarrow> mstate option" where
  "indicate_switch H from to s =
     (let fh = cfg_focus_hint (cfg s) in
      case fh_type fh of
        FH_NONE \<Rightarrow> Some s
      | FH_DIM_INACTIVE \<Rightarrow> do {
          s1 \<leftarrow> (if from \<noteq> to
                 then transition_brightness H from 1 (brightness fh) (duration fh) (fade_steps fh) s
                 else Some s);
          transition_brightness H to (brightness fh) 1 (duration fh) (fade_steps fh) s1
        }
      | FH_FLASH_ACTIVE \<Rightarrow>
          transition_brightness H to (brightness fh) 1 (duration fh) (fade_steps fh) s)"

subsection \<open>Focus\<close>

text \<open>
  \<^verbatim>\<open>focus_node\<close> is split at its two early returns. \<open>focus_boundary\<close> is the
  grab/ungrab transition between master and remote with the warp to the screen centre;
  \<open>focus_commit\<close> is the rest of a real switch; \<open>focus_switch\<close> is the body after the
  \<^verbatim>\<open>switch\<close> statement has resolved \<^verbatim>\<open>switch_to\<close>. The global \<^verbatim>\<open>focused_remote\<close> is
  read afresh at every use, as the C does.
\<close>
definition focus_boundary :: "rid option \<Rightarrow> mstate \<Rightarrow> mstate" where
  "focus_boundary switch_to s1 =
     (let s2 = (if focused_remote s1 \<noteq> None \<and> switch_to = None
                then set_mousepos (saved_master_mousepos s1) (ungrab_inputs s1)
                else if focused_remote s1 = None \<and> switch_to \<noteq> None
                then grab_inputs (s1\<lparr>saved_master_mousepos := get_mousepos s1\<rparr>)
                else s1)
      in if switch_to \<noteq> None then set_mousepos (screen_center (cfg s2)) s2 else s2)"

definition focus_commit ::
  "handler \<Rightarrow> rid option \<Rightarrow> keycode_t list \<Rightarrow> mstate \<Rightarrow> (int \<times> mstate) option" where
  "focus_commit H switch_to modkeys s1 = do {
     let s3 = focus_boundary switch_to s1;
     s4 \<leftarrow> transfer_clipboard H (focused_remote s3) switch_to s3;
     s5 \<leftarrow> transfer_modifiers H (focused_remote s4) switch_to modkeys s4;
     Some (1, s5\<lparr>focused_remote := switch_to\<rparr>)
   }"

definition focus_switch ::
  "handler \<Rightarrow> rid option \<Rightarrow> keycode_t list \<Rightarrow> bool \<Rightarrow> mstate \<Rightarrow> (int \<times> mstate) option" where
  "focus_switch H switch_to modkeys from_hotkey s = do {
     s1 \<leftarrow> (if switch_to \<noteq> focused_remote s
                \<or> show_nullswitch (cfg s) = NS_YES
                \<or> (show_nullswitch (cfg s) = NS_HOTKEYONLY \<and> from_hotkey)
            then indicate_switch H (focused_remote s) switch_to s
            else Some s);
     if switch_to = focused_remote s1 then Some (0, s1)
     else focus_commit H switch_to modkeys s1
   }"

definition focus_node ::
  "handler \<Rightarrow> noderef \<Rightarrow> keycode_t list \<Rightarrow> bool \<Rightarrow> mstate \<Rightarrow> (int \<times> mstate) option" where
  "focus_node H n modkeys from_hotkey s =
     (case n of
        NT_NONE \<Rightarrow> focus_switch H (focused_remote s) modkeys from_hotkey s
      | NT_MASTER \<Rightarrow> focus_switch H None modkeys from_hotkey s
      | NT_REMOTE r \<Rightarrow>
          if state (remotes s r) \<noteq> CS_CONNECTED
          then Some (0, elog (''remote '' @ r_alias (remotes s r) @ '' not connected, can't focus'') s)
          else focus_switch H (Some r) modkeys from_hotkey s
      | NT_REMOTE_TMPNAME nm \<Rightarrow> Some (0, elog ''unexpected neighbor type'' s))"

definition focus_master :: "handler \<Rightarrow> mstate \<Rightarrow> mstate option" where
  "focus_master H s = do {
     let modkeys = get_current_modifiers s;
     (did, s') \<leftarrow> focus_node H NT_MASTER modkeys False s;
     Some s'
   }"

definition focus_neighbor ::
  "handler \<Rightarrow> direction_t \<Rightarrow> keycode_t list \<Rightarrow> bool \<Rightarrow> mstate \<Rightarrow> (int \<times> mstate) option" where
  "focus_neighbor H dir modkeys from_hotkey s =
     focus_node H
       ((case focused_remote s of
           Some r \<Rightarrow> neighbors (remotes s r)
         | None \<Rightarrow> master_neighbors (cfg s)) dir)
       modkeys from_hotkey s"

subsection \<open>Failure and reconnect\<close>

text \<open>Killing and reaping the transport subprocess leaves no trace in the model.\<close>
definition disconnect_remote :: "handler \<Rightarrow> rid \<Rightarrow> mstate \<Rightarrow> mstate option" where
  "disconnect_remote H r s =
     (let s1 = upd_remote r (\<lambda>rmt. rmt\<lparr>msgchan := mc_close (msgchan rmt)\<rparr>) s;
          s2 = upd_remote r (\<lambda>rmt. rmt\<lparr>scheduled_messages := []\<rparr>) s1;
          s3 = upd_remote r (\<lambda>rmt. rmt\<lparr>sshpid := - 1\<rparr>) s2
      in if focused_remote s3 = Some r then focus_master H s3 else Some s3)"

definition RECONNECT_INTERVAL_UNIT :: u64 where
  "RECONNECT_INTERVAL_UNIT = 500 * 1000"

definition MAX_RECONNECT_INTERVAL :: u64 where
  "MAX_RECONNECT_INTERVAL = (30 * 1000 * 1000) div RECONNECT_INTERVAL_UNIT"

definition MAX_RECONNECT_ATTEMPTS :: int where
  "MAX_RECONNECT_ATTEMPTS = 10"

text \<open>
  The reconnect interval \<^verbatim>\<open>fail_remote\<close> computes from the failure count, in units of
  \<^verbatim>\<open>RECONNECT_INTERVAL_UNIT\<close>: the variables \<^verbatim>\<open>lshift\<close> and \<^verbatim>\<open>tmp\<close>.
\<close>
definition reconnect_interval :: "int \<Rightarrow> u64" where
  "reconnect_interval fc =
     (let lshift = (word_of_int (fc - 1) :: u64);
          lshift = (if lshift > 63 then 63 else lshift);
          tmp = (push_bit (unat lshift) 1 :: u64)
      in if tmp > MAX_RECONNECT_INTERVAL then MAX_RECONNECT_INTERVAL else tmp)"

definition fail_remote_body :: "handler \<Rightarrow> rid \<Rightarrow> string \<Rightarrow> mstate \<Rightarrow> mstate option" where
  "fail_remote_body H r reason s = do {
     s1 \<leftarrow> disconnect_remote H r
            (elog (''disconnecting remote '' @ r_alias (remotes s r) @ '': '' @ reason) s);
     let s2 = upd_remote r (\<lambda>rmt. rmt\<lparr>failcount := failcount rmt + 1\<rparr>) s1;
     if failcount (remotes s2 r) > MAX_RECONNECT_ATTEMPTS
     then Some (upd_remote r (\<lambda>rmt. rmt\<lparr>state := CS_PERMFAILED\<rparr>)
                 (elog (''remote '' @ r_alias (remotes s2 r) @ '' exceeds failure limits, permfailing.'') s2))
     else do {
       let s3 = upd_remote r (\<lambda>rmt. rmt\<lparr>state := CS_FAILED\<rparr>) s2;
       let tmp = reconnect_interval (failcount (remotes s3 r));
       Some (upd_remote r
               (\<lambda>rmt. rmt\<lparr>next_reconnect_time := get_microtime s3 + tmp * RECONNECT_INTERVAL_UNIT\<rparr>) s3)
     }
   }"

text \<open>
  The recursion of \<^verbatim>\<open>fail_remote\<close> through \<^verbatim>\<open>enqueue_message\<close>, bounded by the depth
  of nested calls the stack allows.
\<close>
fun fail_remote :: "nat \<Rightarrow> handler" where
  "fail_remote 0 r reason s = None"
| "fail_remote (Suc n) r reason s = fail_remote_body (fail_remote n) r reason s"

text \<open>
  \<^verbatim>\<open>setup_remote\<close>: the socket pair and the fork are the operating system's; \<open>pid\<close> is
  the process id \<^verbatim>\<open>fork\<close> returned to the parent.
\<close>
definition setup_remote :: "handler \<Rightarrow> int \<Rightarrow> rid \<Rightarrow> mstate \<Rightarrow> mstate option" where
  "setup_remote H pid r s =
     (let s1 = upd_remote r (\<lambda>rmt. rmt\<lparr>sshpid := pid\<rparr>) s;
          s2 = upd_remote r (\<lambda>rmt. rmt\<lparr>state := CS_SETTINGUP\<rparr>) s1;
          s3 = upd_remote r (\<lambda>rmt. rmt\<lparr>msgchan := mc_init (msgchan rmt)\<rparr>) s2
      in enqueue_message H r
           (new_message (MT_SETUP (PROT_VERSION (cfg s3)) (params (remotes s3 r)))) s3)"

section \<open>Edge events\<close>

definition record_edgeevent :: "int \<Rightarrow> edge_state \<Rightarrow> edgeevent_t \<Rightarrow> u64 \<Rightarrow> int \<times> edge_state" where
  "record_edgeevent histlen es evtype when =
     (if evtype = last_evtype es then (1, es)
      else let idx = (evidx es + 1) mod histlen
           in (0, es\<lparr>evidx := idx,
                     event_times := (event_times es)(idx := when),
                     last_evtype := evtype\<rparr>))"

text \<open>The assertion of \<^verbatim>\<open>get_edgehist_entry\<close> aborts the process when it fails.\<close>
definition get_edgehist_entry :: "int \<Rightarrow> edge_state \<Rightarrow> int \<Rightarrow> u64 option" where
  "get_edgehist_entry histlen es rel_idx =
     (if rel_idx < histlen \<and> rel_idx \<ge> 0
      then Some (event_times es ((evidx es - rel_idx + histlen) mod histlen))
      else None)"

definition edgeswitch_reposition ::
  "handler \<Rightarrow> direction_t \<Rightarrow> float \<Rightarrow> float \<Rightarrow> mstate \<Rightarrow> mstate option" where
  "edgeswitch_reposition H dir src_x src_y s =
     (let (x, y) = (case dir of
                      LEFT \<Rightarrow> (1, src_y)
                    | RIGHT \<Rightarrow> (0, src_y)
                    | UP \<Rightarrow> (src_x, 1)
                    | DOWN \<Rightarrow> (src_x, 0))
      in case focused_remote s of
           Some r \<Rightarrow> enqueue_message H r (new_message (MT_SETMOUSEPOSSCREENREL x y)) s
         | None \<Rightarrow> Some (set_mousepos_screenrel x y s))"

text \<open>The \<^verbatim>\<open>struct edge_state*\<close> argument points into the master's or a remote's array.\<close>
datatype edgehist_ref = Master_edgehist | Remote_edgehist rid

definition get_edgehist :: "edgehist_ref \<Rightarrow> direction_t \<Rightarrow> mstate \<Rightarrow> edge_state" where
  "get_edgehist h dir s =
     (case h of Master_edgehist \<Rightarrow> master_edgehist s dir
      | Remote_edgehist r \<Rightarrow> edgehist (remotes s r) dir)"

definition set_edgehist :: "edgehist_ref \<Rightarrow> direction_t \<Rightarrow> edge_state \<Rightarrow> mstate \<Rightarrow> mstate" where
  "set_edgehist h dir es s =
     (case h of
        Master_edgehist \<Rightarrow> s\<lparr>master_edgehist := (master_edgehist s)(dir := es)\<rparr>
      | Remote_edgehist r \<Rightarrow> upd_remote r (\<lambda>rmt. rmt\<lparr>edgehist := (edgehist rmt)(dir := es)\<rparr>) s)"

definition trigger_edgeevent ::
  "handler \<Rightarrow> edgehist_ref \<Rightarrow> direction_t \<Rightarrow> edgeevent_t \<Rightarrow> float \<Rightarrow> float \<Rightarrow> mstate
     \<Rightarrow> (int \<times> mstate) option" where
  "trigger_edgeevent H ehist dir evtype src_xpos src_ypos s =
     (let now_us = get_microtime s;
          histlen = EDGESTATE_HISTLEN (cfg s);
          (status, es) = record_edgeevent histlen (get_edgehist ehist dir s) evtype now_us;
          s1 = set_edgehist ehist dir es s
      in if status \<noteq> 0 then Some (status, s1)
         else if ms_type (cfg_mouseswitch (cfg s1)) = MS_MULTITAP \<and> evtype = EE_ARRIVE
         then do {
           let start_idx = (num (cfg_mouseswitch (cfg s1)) - 1) * 2;
           t \<leftarrow> get_edgehist_entry histlen (get_edgehist ehist dir s1) start_idx;
           let dur = now_us - t;
           if dur < window (cfg_mouseswitch (cfg s1))
           then do {
             let modkeys = get_current_modifiers s1;
             (did, s2) \<leftarrow> focus_neighbor H dir modkeys False s1;
             s3 \<leftarrow> (if did \<noteq> 0 then edgeswitch_reposition H dir src_xpos src_ypos s2 else Some s2);
             Some (0, s3)
           }
           else Some (0, s1)
         }
         else Some (0, s1))"

text \<open>The enumeration order of \<^verbatim>\<open>direction_t\<close>, which fixes the bit of each direction.\<close>
definition dir_index :: "direction_t \<Rightarrow> nat" where
  "dir_index dir = (case dir of LEFT \<Rightarrow> 0 | RIGHT \<Rightarrow> 1 | UP \<Rightarrow> 2 | DOWN \<Rightarrow> 3)"

definition ALLDIRS_MASK :: u32 where
  "ALLDIRS_MASK = 15"

definition check_edgeevent_dir ::
  "handler \<Rightarrow> edgehist_ref \<Rightarrow> string \<Rightarrow> u32 \<Rightarrow> u32 \<Rightarrow> float \<Rightarrow> float \<Rightarrow> direction_t
     \<Rightarrow> mstate \<Rightarrow> mstate option" where
  "check_edgeevent_dir H hist srcname old new xpos ypos dir s =
     (let dirmask = (push_bit (dir_index dir) 1 :: u32)
      in if (old AND dirmask) \<noteq> (new AND dirmask)
         then do {
           let edgeevtype = (if (new AND dirmask) \<noteq> 0 then EE_ARRIVE else EE_DEPART);
           (status, s1) \<leftarrow> trigger_edgeevent H hist dir edgeevtype xpos ypos s;
           Some (if status \<noteq> 0
                 then elog (''out-of-sync edge event on '' @ srcname @ '' ignored'') s1
                 else s1)
         }
         else Some s)"

definition check_edgeevents ::
  "handler \<Rightarrow> edgehist_ref \<Rightarrow> string \<Rightarrow> u32 \<Rightarrow> u32 \<Rightarrow> float \<Rightarrow> float \<Rightarrow> mstate \<Rightarrow> mstate option" where
  "check_edgeevents H hist srcname old new xpos ypos s =
     mfold (check_edgeevent_dir H hist srcname old new xpos ypos) [LEFT, RIGHT, UP, DOWN] s"

definition trigger_edgeevent_cb :: "handler \<Rightarrow> u32 \<Rightarrow> u32 \<Rightarrow> float \<Rightarrow> float \<Rightarrow> mstate \<Rightarrow> mstate option" where
  "trigger_edgeevent_cb H old new xpos ypos s =
     check_edgeevents H Master_edgehist ''master'' old new xpos ypos s"

section \<open>Messages from remotes, hotkeys and the event loop\<close>

definition handle_message :: "handler \<Rightarrow> rid \<Rightarrow> message \<Rightarrow> mstate \<Rightarrow> mstate option" where
  "handle_message H r msg s =
     (case body msg of
        MT_READY \<Rightarrow>
          if state (remotes s r) \<noteq> CS_SETTINGUP then H r ''unexpected READY message'' s
          else do {
            let s1 = upd_remote r (\<lambda>rmt. rmt\<lparr>state := CS_CONNECTED\<rparr>) s;
            let s2 = upd_remote r (\<lambda>rmt. rmt\<lparr>failcount := 0\<rparr>) s1;
            let s3 = elog (''remote '' @ r_alias (remotes s2 r) @ '' becomes ready...'') s2;
            if fh_type (cfg_focus_hint (cfg s3)) = FH_DIM_INACTIVE
            then transition_brightness H (Some r) 1 (brightness (cfg_focus_hint (cfg s3)))
                   (duration (cfg_focus_hint (cfg s3))) (fade_steps (cfg_focus_hint (cfg s3))) s3
            else Some s3
          }
      | MT_SETCLIPBOARD buf \<Rightarrow>
          if state (remotes s r) \<noteq> CS_CONNECTED
          then Some (elog (''got unexpected SETCLIPBOARD from non-connected remote ''
                           @ r_alias (remotes s r) @ '', ignoring.'') s)
          else do {
            let s1 = set_clipboard_from_buf buf s;
            case focused_remote s1 of
              Some f \<Rightarrow> enqueue_message H f (new_message (MT_SETCLIPBOARD (get_clipboard_text s1))) s1
            | None \<Rightarrow> Some s1
          }
      | MT_LOGMSG logmsg \<Rightarrow> Some (elog (r_alias (remotes s r) @ '': '' @ logmsg) s)
      | MT_EDGEMASKCHANGE old new xpos ypos \<Rightarrow>
          if (old AND NOT ALLDIRS_MASK) \<noteq> 0 \<or> (new AND NOT ALLDIRS_MASK) \<noteq> 0
          then H r ''invalid edge mask'' s
          else check_edgeevents H (Remote_edgehist r) (r_alias (remotes s r)) old new xpos ypos s
      | _ \<Rightarrow> H r ''unexpected message type'' s)"

datatype action = AT_SWITCH direction_t | AT_SWITCHTO noderef | AT_RECONNECT | AT_QUIT

definition reconnect_one :: "u64 \<Rightarrow> rid \<Rightarrow> mstate \<Rightarrow> mstate" where
  "reconnect_one now_us r s =
     (let s1 = (if state (remotes s r) = CS_PERMFAILED
                then upd_remote r (\<lambda>rmt. rmt\<lparr>state := CS_FAILED\<rparr>) s else s);
          s2 = upd_remote r (\<lambda>rmt. rmt\<lparr>failcount := 0\<rparr>) s1
      in upd_remote r (\<lambda>rmt. rmt\<lparr>next_reconnect_time := now_us\<rparr>) s2)"

text \<open>\<^verbatim>\<open>AT_QUIT\<close> shuts down and exits: the call does not return.\<close>
definition action_cb :: "handler \<Rightarrow> action \<Rightarrow> keycode_t list \<Rightarrow> mstate \<Rightarrow> mstate option" where
  "action_cb H a modkeys s =
     (case a of
        AT_SWITCH dir \<Rightarrow> map_option snd (focus_neighbor H dir modkeys True s)
      | AT_SWITCHTO n \<Rightarrow> map_option snd (focus_node H n modkeys True s)
      | AT_RECONNECT \<Rightarrow> Some (fold (reconnect_one (get_microtime s)) (remote_list (cfg s)) s)
      | AT_QUIT \<Rightarrow> None)"

definition remote_live :: "remote \<Rightarrow> bool" where
  "remote_live rmt \<longleftrightarrow> state rmt = CS_CONNECTED \<or> state rmt = CS_SETTINGUP"

text \<open>
  The loop of \<^verbatim>\<open>enqueue_scheduled_messages\<close> tests the remote's list again after every
  \<^verbatim>\<open>enqueue_message\<close>, which may have failed the remote on the way.
\<close>
partial_function (option) enqueue_scheduled_messages ::
  "handler \<Rightarrow> rid \<Rightarrow> u64 \<Rightarrow> mstate \<Rightarrow> mstate option" where
  "enqueue_scheduled_messages H r when s =
     (case scheduled_messages (remotes s r) of
        [] \<Rightarrow> Some s
      | msg # rest \<Rightarrow>
          if sendtime msg \<le> when
          then Option.bind
                 (enqueue_message H r msg (upd_remote r (\<lambda>rmt. rmt\<lparr>scheduled_messages := rest\<rparr>) s))
                 (enqueue_scheduled_messages H r when)
          else Some s)"

declare enqueue_scheduled_messages.simps [code]

text \<open>
  Modelled from the spec: \<^verbatim>\<open>recv_message\<close> and \<^verbatim>\<open>send_message\<close> of the channel. What
  they return and, for a receive, the decoded message is the environment's; a send that
  makes progress takes \<open>k\<close> messages off the front of the outbound buffer.
\<close>
definition mc_sent :: "nat \<Rightarrow> msgchan \<Rightarrow> msgchan" where
  "mc_sent k mc = mc\<lparr>sendqueue := drop k (sendqueue mc)\<rparr>"

definition mc_have_outbound_data :: "msgchan \<Rightarrow> bool" where
  "mc_have_outbound_data mc \<longleftrightarrow> sendqueue mc \<noteq> []"

definition read_rmtdata :: "handler \<Rightarrow> rid \<Rightarrow> int \<Rightarrow> message \<Rightarrow> mstate \<Rightarrow> mstate option" where
  "read_rmtdata H r status msg s =
     (if status = 0 then Some s
      else if status < 0 then H r ''failed to receive valid message'' s
      else handle_message H r msg s)"

definition write_rmtdata :: "handler \<Rightarrow> rid \<Rightarrow> int \<Rightarrow> nat \<Rightarrow> mstate \<Rightarrow> mstate option" where
  "write_rmtdata H r status k s =
     (let s1 = upd_remote r (\<lambda>rmt. rmt\<lparr>msgchan := mc_sent k (msgchan rmt)\<rparr>) s
      in if status < 0 then H r ''failed to send message'' s1
         else if status > 0 then Some s1
         else None)"

text \<open>
  One action of an iteration of \<^verbatim>\<open>handle_fds\<close>. The event says what the clock, \<^verbatim>\<open>select\<close>
  and the platform's \<^verbatim>\<open>process_events\<close> report; the guards are the tests \<^verbatim>\<open>handle_fds\<close>
  makes before the call.
\<close>
datatype event =
    Ev_clock u64
  | Ev_user "int \<times> int" string "keycode_t list"
  | Ev_run_scheduled_calls
  | Ev_reconnect rid int
  | Ev_enqueue_scheduled rid
  | Ev_read rid int message
  | Ev_write rid int nat
  | Ev_hotkey action "keycode_t list"
  | Ev_edge u32 u32 float float
  | Ev_key keycode_t pressrel_t
  | Ev_move int int
  | Ev_click mousebutton_t pressrel_t

definition step ::
  "(nat \<Rightarrow> float \<Rightarrow> mstate \<Rightarrow> mstate) \<Rightarrow> nat \<Rightarrow> event \<Rightarrow> mstate \<Rightarrow> mstate option" where
  "step ext n ev s =
     (let H = fail_remote n in
      case ev of
        Ev_clock t \<Rightarrow> if microtime s \<le> t then Some (s\<lparr>microtime := t\<rparr>) else None
      | Ev_user pt text mods \<Rightarrow>
          Some (s\<lparr>plat := (plat s)\<lparr>pointer := pt, clipboard := text, held_modifiers := mods\<rparr>\<rparr>)
      | Ev_run_scheduled_calls \<Rightarrow> run_scheduled_calls ext (get_microtime s) s
      | Ev_reconnect r pid \<Rightarrow>
          if r \<in> set (remote_list (cfg s)) \<and> state (remotes s r) = CS_FAILED
             \<and> next_reconnect_time (remotes s r) < get_microtime s
          then setup_remote H pid r s else None
      | Ev_enqueue_scheduled r \<Rightarrow>
          if r \<in> set (remote_list (cfg s)) \<and> remote_live (remotes s r)
          then enqueue_scheduled_messages H r (get_microtime s) s else None
      | Ev_read r status msg \<Rightarrow>
          if r \<in> set (remote_list (cfg s)) \<and> remote_live (remotes s r)
          then read_rmtdata H r status msg s else None
      | Ev_write r status k \<Rightarrow>
          if r \<in> set (remote_list (cfg s)) \<and> remote_live (remotes s r)
             \<and> mc_have_outbound_data (msgchan (remotes s r))
          then write_rmtdata H r status k s else None
      | Ev_hotkey a modkeys \<Rightarrow> action_cb H a modkeys s
      | Ev_edge old new xpos ypos \<Rightarrow> trigger_edgeevent_cb H old new xpos ypos s
      | Ev_key kc pr \<Rightarrow> send_keyevent H (focused_remote s) kc pr s
      | Ev_move dx dy \<Rightarrow> send_moverel H (focused_remote s) dx dy s
      | Ev_click button pr \<Rightarrow> send_clickevent H (focused_remote s) button pr s)"

text \<open>
  \<^verbatim>\<open>main\<close> before the loop: the parsed configuration, nothing focused or scheduled, then
  \<^verbatim>\<open>setup_remote\<close> for every remote.
\<close>
definition parsed :: "mstate \<Rightarrow> bool" where
  "parsed s0 \<longleftrightarrow>
     focused_remote s0 = None \<and> scheduled_calls s0 = []
     \<and> (\<forall>r. scheduled_messages (remotes s0 r) = [])"

definition startup :: "nat \<Rightarrow> int list \<Rightarrow> mstate \<Rightarrow> mstate option" where
  "startup n pids s0 =
     mfold (\<lambda>(r, pid). setup_remote (fail_remote n) pid r) (zip (remote_list (cfg s0)) pids) s0"

inductive reachable :: "mstate \<Rightarrow> bool" where
  reachable_start:
    "parsed s0 \<Longrightarrow> length pids = length (remote_list (cfg s0)) \<Longrightarrow> startup n pids s0 = Some s
     \<Longrightarrow> reachable s"
| reachable_step:
    "reachable s \<Longrightarrow> step ext n ev s = Some s' \<Longrightarrow> reachable s'"

section \<open>Notions used to state the properties\<close>

text \<open>A property of the state (or result) a call returns, if it returns.\<close>
definition opres :: "('a \<Rightarrow> bool) \<Rightarrow> 'a option \<Rightarrow> bool" where
  "opres P m = (case m of None \<Rightarrow> True | Some x \<Rightarrow> P x)"

text \<open>
  The ordering invariant of the scheduled queues. The second conjunct says that the
  master schedules no callback but its own \<^verbatim>\<open>set_brightness_cb\<close>.
\<close>
definition qinv :: "mstate \<Rightarrow> bool" where
  "qinv s \<longleftrightarrow>
     sorted (map calltime (scheduled_calls s))
     \<and> (\<forall>c \<in> set (scheduled_calls s). fn c = Set_brightness_cb)
     \<and> (\<forall>r. sorted (map sendtime (scheduled_messages (remotes s r))))"

definition hpres :: "handler \<Rightarrow> bool" where
  "hpres H \<longleftrightarrow> (\<forall>r reason s. qinv s \<longrightarrow> opres qinv (H r reason s))"

text \<open>A run of events of the loop, from a state.\<close>
definition run_events ::
  "(nat \<Rightarrow> float \<Rightarrow> mstate \<Rightarrow> mstate) \<Rightarrow> nat \<Rightarrow> event list \<Rightarrow> mstate \<Rightarrow> mstate option" where
  "run_events ext n evs s = mfold (step ext n) evs s"

text \<open>
  The edge events a history accepts, out of a sequence of calls of \<^verbatim>\<open>record_edgeevent\<close>
  on it, and the history after the sequence.
\<close>
fun recorded :: "int \<Rightarrow> edge_state \<Rightarrow> (edgeevent_t \<times> u64) list \<Rightarrow> (edgeevent_t \<times> u64) list" where
  "recorded h es [] = []"
| "recorded h es ((ev, t) # rest) =
     (case record_edgeevent h es ev t of
        (status, es') \<Rightarrow> (if status = 0 then [(ev, t)] else []) @ recorded h es' rest)"

fun feed :: "int \<Rightarrow> edge_state \<Rightarrow> (edgeevent_t \<times> u64) list \<Rightarrow> edge_state" where
  "feed h es [] = es"
| "feed h es ((ev, t) # rest) = feed h (snd (record_edgeevent h es ev t)) rest"

subsection \<open>A small installation: one remote to the right of the master\<close>

definition demo_edge_state :: edge_state where
  "demo_edge_state = \<lparr>last_evtype = EE_DEPART, evidx = 0, event_times = (\<lambda>_. 0)\<rparr>"

definition demo_remote :: remote where
  "demo_remote =
     \<lparr>r_alias = ''r0'', params = [], neighbors = (\<lambda>_. NT_NONE)(LEFT := NT_MASTER),
      state = CS_SETTINGUP, failcount = 0, next_reconnect_time = 0, sshpid = 0,
      msgchan = \<lparr>sendqueue = []\<rparr>, scheduled_messages = [],
      edgehist = (\<lambda>_. demo_edge_state)\<rparr>"

definition demo_cfg :: config where
  "demo_cfg =
     \<lparr>remote_list = [0], master_neighbors = (\<lambda>_. NT_NONE)(RIGHT := NT_REMOTE 0),
      cfg_focus_hint = \<lparr>fh_type = FH_NONE, brightness = 1 / 2, duration = 300000, fade_steps = 6\<rparr>,
      cfg_mouseswitch = \<lparr>ms_type = MS_MULTITAP, num = 2, window = 400000\<rparr>,
      show_nullswitch = NS_NO, max_send_backlog = 2, screen_center = (960, 540),
      EDGESTATE_HISTLEN = 8, PROT_VERSION = 1\<rparr>"

definition demo0 :: mstate where
  "demo0 =
     \<lparr>focused_remote = None, remotes = (\<lambda>_. demo_remote), scheduled_calls = [],
      saved_master_mousepos = (0, 0), master_edgehist = (\<lambda>_. demo_edge_state),
      cfg = demo_cfg,
      plat = \<lparr>pointer = (10, 20), clipboard = ''hello'', held_modifiers = [], calls = []\<rparr>,
      microtime = 1000000, stderr_log = []\<rparr>"

text \<open>
  Code behind two foreign function pointers: the first schedules the second for a time
  already past, the second leaves a line in the log.
\<close>
definition chain_ext :: "nat \<Rightarrow> float \<Rightarrow> mstate \<Rightarrow> mstate" where
  "chain_ext k a s =
     (if k = 0 then schedule_call (Extern_fn 1) a 3 s else elog ''second call ran'' s)"

text \<open>
  The installation with the dim-inactive hint in one fade step, and its state once the
  remote has sent READY.
\<close>
definition demo_dim :: mstate where
  "demo_dim = demo0\<lparr>cfg := demo_cfg\<lparr>cfg_focus_hint :=
      \<lparr>fh_type = FH_DIM_INACTIVE, brightness = 1 / 2, duration = 300000, fade_steps = 1\<rparr>\<rparr>\<rparr>"

definition demo_ready :: mstate where
  "demo_ready =
     demo_dim\<lparr>remotes := (\<lambda>_. demo_remote)(0 := demo_remote
        \<lparr>state := CS_CONNECTED, sshpid := 100,
         msgchan := \<lparr>sendqueue = [new_message (MT_SETUP 1 []), new_message (MT_SETBRIGHTNESS 1)]\<rparr>,
         scheduled_messages := [\<lparr>body = MT_SETBRIGHTNESS (1 / 2), sendtime = 1300000\<rparr>]\<rparr>),
       stderr_log := [''remote r0 becomes ready...'']\<rparr>"

text \<open>A queue of the master's own callbacks, two of them due at time 10.\<close>
definition demo_calls :: mstate where
  "demo_calls = demo0\<lparr>scheduled_calls :=
     [\<lparr>fn = Set_brightness_cb, arg = 1 / 2, calltime = 5\<rparr>,
      \<lparr>fn = Set_brightness_cb, arg = 3 / 4, calltime = 10\<rparr>,
      \<lparr>fn = Set_brightness_cb, arg = 1, calltime = 20\<rparr>]\<rparr>"

definition demo_calls_after :: mstate where
  "demo_calls_after =
     demo0\<lparr>scheduled_calls := [\<lparr>fn = Set_brightness_cb, arg = 1, calltime = 20\<rparr>],
           plat := (plat demo0)\<lparr>calls := [Set_display_brightness (1 / 2),
                                             Set_display_brightness (3 / 4)]\<rparr>\<rparr>"

subsection \<open>What a call does when no send backlog overflows\<close>

text \<open>
  \<open>room s r k\<close>: the outbound buffer of \<open>r\<close> takes \<open>k\<close> more messages within the quota.
  The functions below are the effect of the focus controller's calls when every
  \<^verbatim>\<open>enqueue_message\<close> succeeds; the lemmas prove that they are, given the room.
\<close>
definition room :: "mstate \<Rightarrow> rid \<Rightarrow> nat \<Rightarrow> bool" where
  "room s r k \<longleftrightarrow> length (sendqueue (msgchan (remotes s r))) + k \<le> max_send_backlog (cfg s)"

definition room_opt :: "mstate \<Rightarrow> rid option \<Rightarrow> nat \<Rightarrow> bool" where
  "room_opt s node k \<longleftrightarrow> (case node of None \<Rightarrow> True | Some r \<Rightarrow> room s r k)"

definition push_all :: "rid \<Rightarrow> message list \<Rightarrow> mstate \<Rightarrow> mstate" where
  "push_all r ms =
     upd_remote r (\<lambda>rmt. rmt\<lparr>msgchan := (msgchan rmt)\<lparr>sendqueue := sendqueue (msgchan rmt) @ ms\<rparr>\<rparr>)"

definition push_opt :: "rid option \<Rightarrow> message list \<Rightarrow> mstate \<Rightarrow> mstate" where
  "push_opt node ms s = (case node of None \<Rightarrow> s | Some r \<Rightarrow> push_all r ms s)"

text \<open>
  The events of a fade, in the order \<^verbatim>\<open>transition_brightness\<close> schedules them: level and
  time of each intermediate step, then the final one.
\<close>
definition fade_events :: "float \<Rightarrow> float \<Rightarrow> u64 \<Rightarrow> int \<Rightarrow> u64 \<Rightarrow> (float \<times> u64) list" where
  "fade_events from to dur steps now_us =
     map (\<lambda>i. (fadd from (fmul (fdiv (i2f i) (i2f steps)) (fsub to from)),
                now_us + f2u64 (fmul (fdiv (i2f i) (i2f steps)) (u2f dur))))
         (map int [1..<nat steps])
     @ [(to, now_us + dur)]"

definition brightness_message :: "float \<times> u64 \<Rightarrow> message" where
  "brightness_message e = \<lparr>body = MT_SETBRIGHTNESS (fst e), sendtime = snd e\<rparr>"

definition brightness_call :: "float \<times> u64 \<Rightarrow> scheduled_call" where
  "brightness_call e = \<lparr>fn = Set_brightness_cb, arg = fst e, calltime = snd e\<rparr>"

definition fade_schedule :: "rid option \<Rightarrow> (float \<times> u64) list \<Rightarrow> mstate \<Rightarrow> mstate" where
  "fade_schedule node evs s =
     (case node of
        Some r \<Rightarrow>
          upd_remote r (\<lambda>rmt. rmt\<lparr>scheduled_messages :=
            fold (\<lambda>e. insert_message (brightness_message e)) evs (scheduled_messages rmt)\<rparr>) s
      | None \<Rightarrow>
          s\<lparr>scheduled_calls := fold (\<lambda>e. insert_call (brightness_call e)) evs (scheduled_calls s)\<rparr>)"

definition fade_ideal :: "rid option \<Rightarrow> float \<Rightarrow> float \<Rightarrow> u64 \<Rightarrow> int \<Rightarrow> mstate \<Rightarrow> mstate" where
  "fade_ideal node from to dur steps s =
     fade_schedule node (fade_events from to dur steps (microtime s))
       (case node of
          None \<Rightarrow> set_display_brightness from s
        | Some r \<Rightarrow> push_all r [new_message (MT_SETBRIGHTNESS from)] s)"

definition indicate_ideal :: "rid option \<Rightarrow> rid option \<Rightarrow> mstate \<Rightarrow> mstate" where
  "indicate_ideal from to s =
     (let fh = cfg_focus_hint (cfg s) in
      case fh_type fh of
        FH_NONE \<Rightarrow> s
      | FH_DIM_INACTIVE \<Rightarrow>
          fade_ideal to (brightness fh) 1 (duration fh) (fade_steps fh)
            (if from \<noteq> to then fade_ideal from 1 (brightness fh) (duration fh) (fade_steps fh) s
             else s)
      | FH_FLASH_ACTIVE \<Rightarrow> fade_ideal to (brightness fh) 1 (duration fh) (fade_steps fh) s)"

text \<open>The messages \<^verbatim>\<open>indicate_switch\<close> enqueues to remote \<open>r\<close>.\<close>
definition indicate_msgs :: "config \<Rightarrow> rid option \<Rightarrow> rid option \<Rightarrow> rid \<Rightarrow> message list" where
  "indicate_msgs c from to r =
     (let fh = cfg_focus_hint c in
      case fh_type fh of
        FH_NONE \<Rightarrow> []
      | FH_DIM_INACTIVE \<Rightarrow>
          (if from \<noteq> to \<and> from = Some r then [new_message (MT_SETBRIGHTNESS 1)] else [])
          @ (if to = Some r then [new_message (MT_SETBRIGHTNESS (brightness fh))] else [])
      | FH_FLASH_ACTIVE \<Rightarrow>
          (if to = Some r then [new_message (MT_SETBRIGHTNESS (brightness fh))] else []))"

definition clipboard_ideal :: "rid option \<Rightarrow> rid option \<Rightarrow> mstate \<Rightarrow> mstate" where
  "clipboard_ideal from to s =
     (case from of
        Some f \<Rightarrow> push_all f [new_message MT_GETCLIPBOARD] s
      | None \<Rightarrow>
          (case to of
             Some t \<Rightarrow> push_all t [new_message (MT_SETCLIPBOARD (get_clipboard_text s))] s
           | None \<Rightarrow> elog ''switching from master to master??'' s))"

definition modifiers_ideal :: "rid option \<Rightarrow> rid option \<Rightarrow> keycode_t list \<Rightarrow> mstate \<Rightarrow> mstate" where
  "modifiers_ideal from to modkeys s =
     push_opt to (map (\<lambda>k. new_message (MT_KEYEVENT k PR_PRESS)) modkeys)
       (push_opt from (map (\<lambda>k. new_message (MT_KEYEVENT k PR_RELEASE)) modkeys) s)"

definition commit_ideal :: "rid option \<Rightarrow> keycode_t list \<Rightarrow> mstate \<Rightarrow> mstate" where
  "commit_ideal to modkeys s =
     (modifiers_ideal (focused_remote s) to modkeys
        (clipboard_ideal (focused_remote s) to (focus_boundary to s)))\<lparr>focused_remote := to\<rparr>"

text \<open>The messages \<^verbatim>\<open>transfer_clipboard\<close> and \<^verbatim>\<open>transfer_modifiers\<close> enqueue to remote \<open>r\<close>.\<close>
definition clipboard_msgs :: "rid option \<Rightarrow> rid option \<Rightarrow> string \<Rightarrow> rid \<Rightarrow> message list" where
  "clipboard_msgs from to text r =
     (case from of
        Some f \<Rightarrow> if f = r then [new_message MT_GETCLIPBOARD] else []
      | None \<Rightarrow> if to = Some r then [new_message (MT_SETCLIPBOARD text)] else [])"

definition modifier_msgs :: "rid option \<Rightarrow> rid option \<Rightarrow> keycode_t list \<Rightarrow> rid \<Rightarrow> message list" where
  "modifier_msgs from to modkeys r =
     (if from = Some r then map (\<lambda>k. new_message (MT_KEYEVENT k PR_RELEASE)) modkeys else [])
     @ (if to = Some r then map (\<lambda>k. new_message (MT_KEYEVENT k PR_PRESS)) modkeys else [])"

text \<open>The test of \<^verbatim>\<open>focus_node\<close> for giving the visual indication.\<close>
definition indication_due :: "mstate \<Rightarrow> rid option \<Rightarrow> bool \<Rightarrow> bool" where
  "indication_due s switch_to from_hotkey \<longleftrightarrow>
     switch_to \<noteq> focused_remote s
     \<or> show_nullswitch (cfg s) = NS_YES
     \<or> (show_nullswitch (cfg s) = NS_HOTKEYONLY \<and> from_hotkey)"

definition switch_ideal :: "rid option \<Rightarrow> keycode_t list \<Rightarrow> bool \<Rightarrow> mstate \<Rightarrow> int \<times> mstate" where
  "switch_ideal switch_to modkeys from_hotkey s =
     (let s1 = (if indication_due s switch_to from_hotkey
                then indicate_ideal (focused_remote s) switch_to s else s)
      in if switch_to = focused_remote s then (0, s1)
         else (1, commit_ideal switch_to modkeys s1))"



definition is_setclipboard :: "message \<Rightarrow> bool" where
  "is_setclipboard m = (case body m of MT_SETCLIPBOARD text \<Rightarrow> True | _ \<Rightarrow> False)"

text \<open>Two connected remotes, the first focused.\<close>
definition demo_two :: mstate where
  "demo_two =
     demo0\<lparr>focused_remote := Some 0,
           remotes := (\<lambda>_. demo_remote\<lparr>state := CS_CONNECTED\<rparr>),
           cfg := demo_cfg\<lparr>remote_list := [0, 1], max_send_backlog := 8\<rparr>\<rparr>"

definition demo_two_master :: mstate where
  "demo_two_master = demo_two\<lparr>focused_remote := None\<rparr>"

text \<open>
  The installation with the flash hint in one fade step and the null-switch indication
  always shown; and its state once the remote has become ready and a hotkey has focused
  it while its peer reads nothing: the outbound buffer is at the quota.
\<close>
definition demo_flash :: mstate where
  "demo_flash =
     demo0\<lparr>cfg := demo_cfg
             \<lparr>show_nullswitch := NS_YES,
              cfg_focus_hint := \<lparr>fh_type = FH_FLASH_ACTIVE, brightness = 1 / 2,
                                 duration = 300000, fade_steps = 1\<rparr>\<rparr>\<rparr>"

definition demo_full :: mstate where
  "demo_full =
     demo_flash\<lparr>focused_remote := Some 0,
       remotes := (\<lambda>_. demo_remote)(0 := demo_remote
         \<lparr>state := CS_CONNECTED, sshpid := 100,
          msgchan := \<lparr>sendqueue = [new_message (MT_SETBRIGHTNESS (1 / 2)),
                                    new_message (MT_SETCLIPBOARD ''hello'')]\<rparr>,
          scheduled_messages := [\<lparr>body = MT_SETBRIGHTNESS 1, sendtime = 1300000\<rparr>]\<rparr>),
       saved_master_mousepos := (10, 20),
       plat := \<lparr>pointer = (960, 540), clipboard = ''hello'', held_modifiers = [],
                 calls = [Grab_inputs, Set_mousepos (960, 540)]\<rparr>,
       stderr_log := [''remote r0 becomes ready...'']\<rparr>"




section \<open>Evaluation\<close>

lemmas platform_defs = platform_do_def grab_inputs_def ungrab_inputs_def get_mousepos_def
  set_mousepos_def set_mousepos_screenrel_def set_display_brightness_def get_clipboard_text_def
  set_clipboard_from_buf_def get_current_modifiers_def get_microtime_def elog_def

lemmas demo_defs = demo0_def demo_cfg_def demo_remote_def demo_edge_state_def


section \<open>Scheduler: ordered, stable insertion\<close>


lemma set_insert_call: "set (insert_call c q) = insert c (set q)"
  by (induction q) auto

lemma insert_call_sorted:
  "sorted (map calltime q) \<Longrightarrow> sorted (map calltime (insert_call c q))"
  by (induction q) (auto simp: not_less set_insert_call)

lemma set_insert_message: "set (insert_message c q) = insert c (set q)"
  by (induction q) auto

lemma insert_message_sorted:
  "sorted (map sendtime q) \<Longrightarrow> sorted (map sendtime (insert_message c q))"
  by (induction q) (auto simp: not_less set_insert_message)

lemma set_brightness_cb_queue:
  "set_brightness_cb a (s\<lparr>scheduled_calls := q\<rparr>) = (set_brightness_cb a s)\<lparr>scheduled_calls := q\<rparr>"
  by (simp add: set_brightness_cb_def set_display_brightness_def platform_do_def)

lemma fold_set_brightness_cb_queue:
  "fold (\<lambda>c. set_brightness_cb (arg c)) cs (s\<lparr>scheduled_calls := q\<rparr>)
     = (fold (\<lambda>c. set_brightness_cb (arg c)) cs s)\<lparr>scheduled_calls := q\<rparr>"
  by (induction cs arbitrary: s) (simp_all add: set_brightness_cb_queue)

lemma run_own:
  "\<forall>c \<in> set q. fn c = Set_brightness_cb \<Longrightarrow> scheduled_calls s = q \<Longrightarrow>
   run_scheduled_calls ext when s =
     Some ((fold (\<lambda>c. set_brightness_cb (arg c)) (takeWhile (\<lambda>c. calltime c \<le> when) q) s)
             \<lparr>scheduled_calls := dropWhile (\<lambda>c. calltime c \<le> when) q\<rparr>)"
proof (induction q arbitrary: s)
  case Nil
  then show ?case by (subst run_scheduled_calls.simps) simp
next
  case (Cons c q)
  show ?case
  proof (cases "calltime c \<le> when")
    case True
    let ?s1 = "call_fn ext c (s\<lparr>scheduled_calls := q\<rparr>)"
    have s1: "?s1 = (set_brightness_cb (arg c) s)\<lparr>scheduled_calls := q\<rparr>"
      using Cons.prems by (simp add: call_fn_def set_brightness_cb_queue)
    have "run_scheduled_calls ext when s = run_scheduled_calls ext when ?s1"
      using Cons.prems True by (subst run_scheduled_calls.simps) simp
    also have "\<dots> = Some ((fold (\<lambda>c. set_brightness_cb (arg c)) (takeWhile (\<lambda>c. calltime c \<le> when) q) ?s1)
             \<lparr>scheduled_calls := dropWhile (\<lambda>c. calltime c \<le> when) q\<rparr>)"
      using Cons.prems by (intro Cons.IH) (simp_all add: s1)
    finally show ?thesis
      using True by (simp add: s1 fold_set_brightness_cb_queue)
  next
    case False
    then show ?thesis using Cons.prems by (subst run_scheduled_calls.simps) simp
  qed
qed

lemma opres_None [simp]: "opres P None"
  by (simp add: opres_def)

lemma opres_Some [simp]: "opres P (Some x) = P x"
  by (simp add: opres_def)

lemma opres_bindI:
  "opres Q m \<Longrightarrow> (\<And>x. Q x \<Longrightarrow> opres P (f x)) \<Longrightarrow> opres P (Option.bind m f)"
  by (cases m) simp_all

lemma opres_map_option: "opres P (map_option g m) = opres (\<lambda>x. P (g x)) m"
  by (cases m) simp_all

lemma opres_mono: "opres Q m \<Longrightarrow> (\<And>x. Q x \<Longrightarrow> P x) \<Longrightarrow> opres P m"
  by (cases m) simp_all

lemma opresD: "opres P m \<Longrightarrow> m = Some x \<Longrightarrow> P x"
  by simp

lemma qinv_upd_remote [simp]:
  "(\<And>rmt. scheduled_messages (f rmt) = scheduled_messages rmt) \<Longrightarrow> qinv (upd_remote r f s) = qinv s"
  by (auto simp: qinv_def upd_remote_def)

lemma qinv_elog [simp]: "qinv (elog m s) = qinv s"
  by (simp add: qinv_def elog_def)

lemma qinv_platform_do [simp]: "qinv (platform_do c s) = qinv s"
  by (simp add: qinv_def platform_do_def)

lemma qinv_fields [simp]:
  "qinv (s\<lparr>focused_remote := fr\<rparr>) = qinv s"
  "qinv (s\<lparr>saved_master_mousepos := mp\<rparr>) = qinv s"
  "qinv (s\<lparr>master_edgehist := eh\<rparr>) = qinv s"
  "qinv (s\<lparr>plat := p\<rparr>) = qinv s"
  "qinv (s\<lparr>microtime := t\<rparr>) = qinv s"
  by (simp_all add: qinv_def)

lemma qinv_platform [simp]:
  "qinv (grab_inputs s) = qinv s"
  "qinv (ungrab_inputs s) = qinv s"
  "qinv (set_mousepos pt s) = qinv s"
  "qinv (set_mousepos_screenrel x y s) = qinv s"
  "qinv (set_display_brightness f s) = qinv s"
  "qinv (set_clipboard_from_buf buf s) = qinv s"
  by (simp_all add: grab_inputs_def ungrab_inputs_def set_mousepos_def set_mousepos_screenrel_def
        set_display_brightness_def set_clipboard_from_buf_def)

lemma qinv_schedule_call:
  "qinv s \<Longrightarrow> qinv (schedule_call Set_brightness_cb a w s)"
  by (simp add: qinv_def schedule_call_def insert_call_sorted set_insert_call)

lemma qinv_schedule_message: "qinv s \<Longrightarrow> qinv (schedule_message r m s)"
  by (simp add: qinv_def schedule_message_def upd_remote_def insert_message_sorted)

lemma qinv_clear: "qinv s \<Longrightarrow> qinv (upd_remote r (\<lambda>rmt. rmt\<lparr>scheduled_messages := []\<rparr>) s)"
  by (simp add: qinv_def upd_remote_def)

lemma qinv_schedule_brightness_change:
  "qinv s \<Longrightarrow> qinv (schedule_brightness_change node f w s)"
  by (cases node) (simp_all add: schedule_brightness_change_def qinv_schedule_call qinv_schedule_message)

lemma qinv_fold:
  "(\<And>x s. qinv s \<Longrightarrow> qinv (f x s)) \<Longrightarrow> qinv s \<Longrightarrow> qinv (fold f xs s)"
  by (induction xs arbitrary: s) simp_all

lemma enqueue_message_q:
  "hpres H \<Longrightarrow> qinv s \<Longrightarrow> opres qinv (enqueue_message H r msg s)"
  by (simp add: enqueue_message_def mc_enqueue_message_def Let_def hpres_def)

lemma mfold_q:
  "(\<And>x s. qinv s \<Longrightarrow> opres qinv (f x s)) \<Longrightarrow> qinv s \<Longrightarrow> opres qinv (mfold f xs s)"
proof (induction xs arbitrary: s)
  case Nil
  then show ?case by simp
next
  case (Cons x xs)
  show ?case
    by (simp, rule opres_bindI [where Q = qinv]) (simp_all add: Cons)
qed

lemma transfer_clipboard_q:
  "hpres H \<Longrightarrow> qinv s \<Longrightarrow> opres qinv (transfer_clipboard H from to s)"
  by (simp add: transfer_clipboard_def enqueue_message_q Let_def split: option.splits)

lemma transfer_modifiers_q:
  "hpres H \<Longrightarrow> qinv s \<Longrightarrow> opres qinv (transfer_modifiers H from to modkeys s)"
  unfolding transfer_modifiers_def
  by (rule opres_bindI [where Q = qinv])
     (simp_all add: mfold_q enqueue_message_q split: option.splits)

lemma send_q:
  "hpres H \<Longrightarrow> qinv s \<Longrightarrow> opres qinv (send_keyevent H rmt kc pr s)"
  "hpres H \<Longrightarrow> qinv s \<Longrightarrow> opres qinv (send_moverel H rmt dx dy s)"
  "hpres H \<Longrightarrow> qinv s \<Longrightarrow> opres qinv (send_clickevent H rmt b pr s)"
  "hpres H \<Longrightarrow> qinv s \<Longrightarrow> opres qinv (send_setbrightness H rmt f s)"
  "hpres H \<Longrightarrow> qinv s \<Longrightarrow> opres qinv (set_node_display_brightness H rmt f s)"
  by (simp_all add: send_keyevent_def send_moverel_def send_clickevent_def send_setbrightness_def
        set_node_display_brightness_def enqueue_message_q split: option.splits)

lemma transition_brightness_q:
  "hpres H \<Longrightarrow> qinv s \<Longrightarrow> opres qinv (transition_brightness H node from to dur steps s)"
  unfolding transition_brightness_def Let_def
  by (rule opres_bindI [where Q = qinv])
     (simp_all add: send_q qinv_schedule_brightness_change qinv_fold transition_step_def Let_def)

lemma indicate_switch_q:
  "hpres H \<Longrightarrow> qinv s \<Longrightarrow> opres qinv (indicate_switch H from to s)"
  unfolding indicate_switch_def Let_def
  apply (cases "fh_type (cfg_focus_hint (cfg s))"; cases "from = to")
       apply (simp_all add: transition_brightness_q)
  apply (rule opres_bindI [where Q = qinv]; simp add: transition_brightness_q)
  done

lemma qinv_focus_boundary [simp]: "qinv (focus_boundary switch_to s) = qinv s"
  by (simp add: focus_boundary_def Let_def)

lemma focus_commit_q:
  "hpres H \<Longrightarrow> qinv s \<Longrightarrow> opres (\<lambda>(d, s'). qinv s') (focus_commit H switch_to modkeys s)"
  unfolding focus_commit_def Let_def
  apply (rule opres_bindI [where Q = qinv])
   apply (rule transfer_clipboard_q; simp)
  apply (rule opres_bindI [where Q = qinv])
   apply (rule transfer_modifiers_q; simp)
  apply simp
  done

lemma focus_switch_q:
  "hpres H \<Longrightarrow> qinv s \<Longrightarrow> opres (\<lambda>(d, s'). qinv s') (focus_switch H switch_to modkeys from_hotkey s)"
  unfolding focus_switch_def
  by (rule opres_bindI [where Q = qinv]) (simp_all add: indicate_switch_q focus_commit_q)

lemma focus_node_q:
  "hpres H \<Longrightarrow> qinv s \<Longrightarrow> opres (\<lambda>(d, s'). qinv s') (focus_node H n modkeys from_hotkey s)"
  by (cases n) (simp_all add: focus_node_def focus_switch_q)

lemma focus_neighbor_q:
  "hpres H \<Longrightarrow> qinv s \<Longrightarrow> opres (\<lambda>(d, s'). qinv s') (focus_neighbor H dir modkeys from_hotkey s)"
  by (simp add: focus_neighbor_def focus_node_q)

lemma focus_master_q:
  "hpres H \<Longrightarrow> qinv s \<Longrightarrow> opres qinv (focus_master H s)"
  unfolding focus_master_def Let_def
  by (rule opres_bindI [where Q = "\<lambda>(d, s'). qinv s'"]) (auto simp: focus_node_q)

lemma disconnect_remote_q:
  "hpres H \<Longrightarrow> qinv s \<Longrightarrow> opres qinv (disconnect_remote H r s)"
  by (simp add: disconnect_remote_def Let_def focus_master_q qinv_clear)

lemma fail_remote_body_q:
  "hpres H \<Longrightarrow> qinv s \<Longrightarrow> opres qinv (fail_remote_body H r reason s)"
  unfolding fail_remote_body_def Let_def
  by (rule opres_bindI [where Q = qinv]) (simp_all add: disconnect_remote_q)

lemma fail_remote_q: "hpres (fail_remote n)"
proof (induction n)
  case 0
  show ?case by (simp add: hpres_def)
next
  case (Suc n)
  then show ?case by (simp add: hpres_def fail_remote_body_q)
qed

lemma setup_remote_q:
  "hpres H \<Longrightarrow> qinv s \<Longrightarrow> opres qinv (setup_remote H pid r s)"
  by (simp add: setup_remote_def Let_def enqueue_message_q)

lemma edgeswitch_reposition_q:
  "hpres H \<Longrightarrow> qinv s \<Longrightarrow> opres qinv (edgeswitch_reposition H dir x y s)"
  by (simp add: edgeswitch_reposition_def Let_def enqueue_message_q split: prod.splits option.splits)

lemma qinv_set_edgehist [simp]: "qinv (set_edgehist h dir es s) = qinv s"
  by (cases h) (simp_all add: set_edgehist_def)

lemma opres_ifI:
  "(c \<Longrightarrow> opres P a) \<Longrightarrow> (\<not> c \<Longrightarrow> opres P b) \<Longrightarrow> opres P (if c then a else b)"
  by simp

lemma trigger_edgeevent_q:
  assumes "hpres H" "qinv s"
  shows "opres (\<lambda>(d, s'). qinv s') (trigger_edgeevent H h dir ev x y s)"
proof -
  obtain st es where re: "record_edgeevent (EDGESTATE_HISTLEN (cfg s)) (get_edgehist h dir s) ev (get_microtime s) = (st, es)"
    by (cases "record_edgeevent (EDGESTATE_HISTLEN (cfg s)) (get_edgehist h dir s) ev (get_microtime s)")
  let ?s1 = "set_edgehist h dir es s"
  have q1: "qinv ?s1" using assms by simp
  have fn: "opres (\<lambda>(d, s'). qinv s') (focus_neighbor H dir (get_current_modifiers ?s1) False ?s1)"
    using assms(1) q1 by (rule focus_neighbor_q)
  show ?thesis
    using assms
    unfolding trigger_edgeevent_def Let_def re prod.case
    apply -
    apply (rule opres_ifI)
     apply (simp add: q1)
    apply (rule opres_ifI)
     apply (rule opres_bindI [where Q = "\<lambda>_. True"])
      apply (simp add: opres_def split: option.splits)
     apply (rule opres_ifI)
      apply (rule opres_bindI [OF fn])
      apply (clarsimp split del: if_split)
      apply (rule opres_bindI [where Q = qinv])
       apply (simp add: edgeswitch_reposition_q assms(1))
      apply simp
     apply (simp add: q1)
    apply (simp add: q1)
    done
qed

lemma check_edgeevent_dir_q:
  "hpres H \<Longrightarrow> qinv s \<Longrightarrow> opres qinv (check_edgeevent_dir H h nm old new x y dir s)"
  unfolding check_edgeevent_dir_def Let_def
  apply (rule opres_ifI)
   apply (rule opres_bindI [OF trigger_edgeevent_q])
     apply simp_all
  apply clarsimp
  done

lemma check_edgeevents_q:
  "hpres H \<Longrightarrow> qinv s \<Longrightarrow> opres qinv (check_edgeevents H h nm old new x y s)"
  unfolding check_edgeevents_def
  by (rule mfold_q) (simp_all add: check_edgeevent_dir_q)

lemma handle_message_q:
  "hpres H \<Longrightarrow> qinv s \<Longrightarrow> opres qinv (handle_message H r msg s)"
  unfolding handle_message_def Let_def
  by (cases "body msg")
     (simp_all add: transition_brightness_q enqueue_message_q check_edgeevents_q hpres_def
        split: option.splits)

lemma qinv_reconnect_one [simp]: "qinv (reconnect_one t r s) = qinv s"
  by (simp add: reconnect_one_def Let_def)

lemma action_cb_q:
  "hpres H \<Longrightarrow> qinv s \<Longrightarrow> opres qinv (action_cb H a modkeys s)"
proof (cases a)
  case (AT_SWITCH dir)
  assume "hpres H" "qinv s"
  then have "opres (\<lambda>(d, s'). qinv s') (focus_neighbor H dir modkeys True s)"
    by (rule focus_neighbor_q)
  then show ?thesis
    by (simp add: action_cb_def AT_SWITCH opres_map_option case_prod_unfold)
next
  case (AT_SWITCHTO n)
  assume "hpres H" "qinv s"
  then have "opres (\<lambda>(d, s'). qinv s') (focus_node H n modkeys True s)"
    by (rule focus_node_q)
  then show ?thesis
    by (simp add: action_cb_def AT_SWITCHTO opres_map_option case_prod_unfold)
next
  case AT_RECONNECT
  assume "hpres H" "qinv s"
  then show ?thesis
    by (simp add: action_cb_def AT_RECONNECT qinv_fold)
next
  case AT_QUIT
  then show ?thesis by (simp add: action_cb_def)
qed

lemma read_rmtdata_q:
  "hpres H \<Longrightarrow> qinv s \<Longrightarrow> opres qinv (read_rmtdata H r status msg s)"
  by (simp add: read_rmtdata_def handle_message_q hpres_def)

lemma write_rmtdata_q:
  "hpres H \<Longrightarrow> qinv s \<Longrightarrow> opres qinv (write_rmtdata H r status k s)"
  by (simp add: write_rmtdata_def Let_def hpres_def)

lemma qinv_pop_message:
  "qinv s \<Longrightarrow> scheduled_messages (remotes s r) = msg # rest \<Longrightarrow>
   qinv (upd_remote r (\<lambda>rmt. rmt\<lparr>scheduled_messages := rest\<rparr>) s)"
  unfolding qinv_def upd_remote_def
  by (auto dest: spec [where x = r])

lemma enqueue_scheduled_messages_q:
  assumes "hpres H" "qinv s"
  shows "opres qinv (enqueue_scheduled_messages H r when s)"
proof (cases "enqueue_scheduled_messages H r when s")
  case None
  then show ?thesis by simp
next
  case (Some y)
  have "hpres H \<longrightarrow> qinv s \<longrightarrow> qinv y"
  proof (rule enqueue_scheduled_messages.raw_induct
           [where P = "\<lambda>H r w s y. hpres H \<longrightarrow> qinv s \<longrightarrow> qinv y", OF _ Some])
    fix f :: "handler \<Rightarrow> rid \<Rightarrow> u64 \<Rightarrow> mstate \<Rightarrow> mstate option"
    fix H r w s y
    assume IH: "\<And>H r w s y. f H r w s = Some y \<Longrightarrow> hpres H \<longrightarrow> qinv s \<longrightarrow> qinv y"
      and eq: "(case scheduled_messages (remotes s r) of
                  [] \<Rightarrow> Some s
                | msg # rest \<Rightarrow>
                    if sendtime msg \<le> w
                    then Option.bind
                           (enqueue_message H r msg
                              (upd_remote r (\<lambda>rmt. rmt\<lparr>scheduled_messages := rest\<rparr>) s))
                           (f H r w)
                    else Some s) = Some y"
    show "hpres H \<longrightarrow> qinv s \<longrightarrow> qinv y"
    proof (intro impI)
      assume h: "hpres H" and q: "qinv s"
      show "qinv y"
      proof (cases "scheduled_messages (remotes s r)")
        case Nil
        with eq q show ?thesis by simp
      next
        case (Cons msg rest)
        show ?thesis
        proof (cases "sendtime msg \<le> w")
          case True
          let ?s0 = "upd_remote r (\<lambda>rmt. rmt\<lparr>scheduled_messages := rest\<rparr>) s"
          from eq Cons True obtain s1 where
            e1: "enqueue_message H r msg ?s0 = Some s1" and e2: "f H r w s1 = Some y"
            by (auto simp: bind_eq_Some_conv)
          have "qinv ?s0" using q Cons by (rule qinv_pop_message)
          with h have "opres qinv (enqueue_message H r msg ?s0)" by (rule enqueue_message_q)
          with e1 have "qinv s1" by simp
          with IH [OF e2] h show ?thesis by simp
        next
          case False
          with eq Cons q show ?thesis by simp
        qed
      qed
    qed
  qed
  with assms Some show ?thesis by simp
qed

lemma sorted_map_dropWhile:
  "sorted (map f xs) \<Longrightarrow> sorted (map f (dropWhile P xs))"
  by (induction xs) auto

lemma remotes_fold_set_brightness_cb [simp]:
  "remotes (fold (\<lambda>c. set_brightness_cb (arg c)) cs s) = remotes s"
  by (induction cs arbitrary: s)
     (simp_all add: set_brightness_cb_def set_display_brightness_def platform_do_def)

lemma run_scheduled_calls_q:
  assumes "qinv s"
  shows "opres qinv (run_scheduled_calls ext when s)"
proof -
  have own: "\<forall>c \<in> set (scheduled_calls s). fn c = Set_brightness_cb"
    using assms by (simp add: qinv_def)
  show ?thesis
    using assms
    by (auto simp: run_own [OF own refl] qinv_def sorted_map_dropWhile dest: set_dropWhileD)
qed

lemma step_q:
  assumes "qinv s"
  shows "opres qinv (step ext n ev s)"
proof -
  note h = fail_remote_q [of n]
  show ?thesis
    using assms
    by (cases ev)
       (simp_all add: step_def run_scheduled_calls_q setup_remote_q [OF h]
          enqueue_scheduled_messages_q [OF h] read_rmtdata_q [OF h] write_rmtdata_q [OF h]
          action_cb_q [OF h] trigger_edgeevent_cb_def check_edgeevents_q [OF h] send_q [OF h])
qed

lemma startup_q:
  assumes "parsed s0"
  shows "opres qinv (startup n pids s0)"
proof -
  have "qinv s0" using assms by (simp add: parsed_def qinv_def)
  then show ?thesis
    unfolding startup_def
    by (rule mfold_q [rotated]) (auto simp: setup_remote_q [OF fail_remote_q])
qed

lemma reachable_qinv: "reachable s \<Longrightarrow> qinv s"
proof (induction rule: reachable.induct)
  case (reachable_start s0 pids n s)
  from startup_q [OF reachable_start(1), of n pids] reachable_start(3) show ?case by simp
next
  case (reachable_step s ext n ev s')
  from step_q [OF reachable_step(3), of ext n ev] reachable_step(2) show ?case by simp
qed

lemma sorted_takeWhile_filter:
  "sorted (map f xs) \<Longrightarrow> takeWhile (\<lambda>x. f x \<le> w) xs = filter (\<lambda>x. f x \<le> w) xs"
proof (induction xs)
  case Nil
  show ?case by simp
next
  case (Cons x xs)
  show ?case
  proof (cases "f x \<le> w")
    case True
    with Cons show ?thesis by simp
  next
    case False
    with Cons.prems have "\<forall>y \<in> set xs. \<not> f y \<le> w" by auto
    then have "filter (\<lambda>x. f x \<le> w) xs = []" by (simp add: filter_empty_conv)
    with False show ?thesis by simp
  qed
qed

lemma sorted_dropWhile_filter:
  "sorted (map f xs) \<Longrightarrow> dropWhile (\<lambda>x. f x \<le> w) xs = filter (\<lambda>x. w < f x) xs"
  for f :: "'a \<Rightarrow> 'b :: linorder"
proof (induction xs)
  case Nil
  show ?case by simp
next
  case (Cons x xs)
  show ?case
  proof (cases "f x \<le> w")
    case True
    with Cons show ?thesis by simp
  next
    case False
    with Cons.prems have "\<forall>y \<in> set xs. w < f y" by auto
    then have "filter (\<lambda>x. w < f x) xs = xs" by (simp add: filter_id_conv)
    with False show ?thesis by simp
  qed
qed

lemma insert_call_eq:
  "insert_call c q = takeWhile (\<lambda>x. calltime x \<le> calltime c) q @ c # dropWhile (\<lambda>x. calltime x \<le> calltime c) q"
  by (induction q) (auto simp: not_le)

lemma insert_message_eq:
  "insert_message c q = takeWhile (\<lambda>x. sendtime x \<le> sendtime c) q @ c # dropWhile (\<lambda>x. sendtime x \<le> sendtime c) q"
  by (induction q) (auto simp: not_le)

lemma recorded_alt: "distinct_adj (last_evtype es # map fst (recorded h es evs))"
proof (induction evs arbitrary: es)
  case Nil
  show ?case by simp
next
  case (Cons e evs)
  obtain ev t where e: "e = (ev, t)" by (cases e)
  show ?case
  proof (cases "ev = last_evtype es")
    case True
    then show ?thesis using Cons.IH [of es] by (simp add: e record_edgeevent_def)
  next
    case False
    let ?es' = "snd (record_edgeevent h es ev t)"
    have "last_evtype ?es' = ev" using False by (simp add: record_edgeevent_def Let_def)
    then show ?thesis
      using False Cons.IH [of ?es'] by (simp add: e record_edgeevent_def Let_def)
  qed
qed

lemma feed_last: "last_evtype (feed h es evs) = last (last_evtype es # map fst (recorded h es evs))"
  by (induction evs arbitrary: es) (auto simp: record_edgeevent_def Let_def)


lemma run_done:
  assumes "run_scheduled_calls ext when s = Some s'"
  shows "case scheduled_calls s' of [] \<Rightarrow> True | c # _ \<Rightarrow> when < calltime c"
proof (rule run_scheduled_calls.raw_induct
         [where P = "\<lambda>e w s y. case scheduled_calls y of [] \<Rightarrow> True | c # _ \<Rightarrow> w < calltime c",
          OF _ assms])
  fix run :: "(nat \<Rightarrow> float \<Rightarrow> mstate \<Rightarrow> mstate) \<Rightarrow> u64 \<Rightarrow> mstate \<Rightarrow> mstate option"
  fix e w s y
  assume IH: "\<And>e w s y. run e w s = Some y \<Longrightarrow>
               (case scheduled_calls y of [] \<Rightarrow> True | c # _ \<Rightarrow> w < calltime c)"
    and eq: "(case scheduled_calls s of [] \<Rightarrow> Some s
              | call # rest \<Rightarrow>
                  if calltime call \<le> w
                  then run e w (call_fn e call (s\<lparr>scheduled_calls := rest\<rparr>))
                  else Some s) = Some y"
  show "case scheduled_calls y of [] \<Rightarrow> True | c # _ \<Rightarrow> w < calltime c"
  proof (cases "scheduled_calls s")
    case Nil
    with eq show ?thesis by simp
  next
    case (Cons c rest)
    show ?thesis
    proof (cases "calltime c \<le> w")
      case True
      with eq Cons have "run e w (call_fn e c (s\<lparr>scheduled_calls := rest\<rparr>)) = Some y"
        by simp
      then show ?thesis by (rule IH)
    next
      case False
      with eq Cons show ?thesis by simp
    qed
  qed
qed


lemma reachable_run_events:
  "reachable s \<Longrightarrow> run_events ext n evs s = Some s' \<Longrightarrow> reachable s'"
proof (induction evs arbitrary: s)
  case Nil
  then show ?case by (simp add: run_events_def)
next
  case (Cons ev evs)
  from Cons.prems(2) obtain s1 where
    s1: "step ext n ev s = Some s1" and rest: "run_events ext n evs s1 = Some s'"
    by (auto simp: run_events_def bind_eq_Some_conv)
  from Cons.prems(1) s1 have "reachable s1" by (rule reachable_step)
  then show ?case using rest by (rule Cons.IH)
qed

lemma reachable_trace:
  assumes "parsed s0" "length pids = length (remote_list (cfg s0))"
    and "Option.bind (startup n pids s0) (run_events ext n evs) = Some s"
  shows "reachable s"
proof -
  from assms(3) obtain s1 where
    s1: "startup n pids s0 = Some s1" and rest: "run_events ext n evs s1 = Some s"
    by (auto simp: bind_eq_Some_conv)
  from assms(1,2) s1 have "reachable s1" by (rule reachable_start)
  then show ?thesis using rest by (rule reachable_run_events)
qed

lemmas exec_defs = startup_def run_events_def step_def setup_remote_def enqueue_message_def
  mc_enqueue_message_def mc_init_def mc_close_def upd_remote_def new_message_def read_rmtdata_def
  write_rmtdata_def handle_message_def transition_brightness_def set_node_display_brightness_def
  send_setbrightness_def schedule_brightness_change_def schedule_message_def schedule_call_def
  remote_live_def platform_defs

lemma demo_ready_trace:
  "Option.bind (startup 1 [100] demo_dim)
     (run_events ext 1 [Ev_read 0 1 \<lparr>body = MT_READY, sendtime = 0\<rparr>]) = Some demo_ready"
  by (simp add: exec_defs demo_dim_def demo_ready_def demo_defs Let_def)

lemma demo_ready_reachable: "reachable demo_ready"
  by (rule reachable_trace [OF _ _ demo_ready_trace])
     (simp_all add: parsed_def demo_dim_def demo_defs)

section \<open>Calls whose messages fit the send backlog\<close>


lemma push_all_fields [simp]:
  "cfg (push_all r ms s) = cfg s"
  "focused_remote (push_all r ms s) = focused_remote s"
  "plat (push_all r ms s) = plat s"
  "microtime (push_all r ms s) = microtime s"
  "scheduled_calls (push_all r ms s) = scheduled_calls s"
  "stderr_log (push_all r ms s) = stderr_log s"
  "saved_master_mousepos (push_all r ms s) = saved_master_mousepos s"
  "master_edgehist (push_all r ms s) = master_edgehist s"
  by (simp_all add: push_all_def upd_remote_def)

lemma push_all_remote [simp]:
  "sendqueue (msgchan (remotes (push_all r ms s) r')) =
     (if r' = r then sendqueue (msgchan (remotes s r)) @ ms else sendqueue (msgchan (remotes s r')))"
  "state (remotes (push_all r ms s) r') = state (remotes s r')"
  "failcount (remotes (push_all r ms s) r') = failcount (remotes s r')"
  "next_reconnect_time (remotes (push_all r ms s) r') = next_reconnect_time (remotes s r')"
  "scheduled_messages (remotes (push_all r ms s) r') = scheduled_messages (remotes s r')"
  "neighbors (remotes (push_all r ms s) r') = neighbors (remotes s r')"
  "r_alias (remotes (push_all r ms s) r') = r_alias (remotes s r')"
  "sshpid (remotes (push_all r ms s) r') = sshpid (remotes s r')"
  "edgehist (remotes (push_all r ms s) r') = edgehist (remotes s r')"
  by (simp_all add: push_all_def upd_remote_def)

lemma push_all_Nil [simp]: "push_all r [] s = s"
  by (simp add: push_all_def upd_remote_def)

lemma push_all_push_all [simp]: "push_all r ms2 (push_all r ms1 s) = push_all r (ms1 @ ms2) s"
  by (simp add: push_all_def upd_remote_def)

lemma enqueue_message_room:
  "room s r 1 \<Longrightarrow> enqueue_message H r m s = Some (push_all r [m] s)"
  by (simp add: enqueue_message_def mc_enqueue_message_def room_def push_all_def upd_remote_def Let_def not_less)

lemma enqueue_message_overflow:
  "\<not> room s r 1 \<Longrightarrow> enqueue_message H r m s = H r ''send backlog exceeded'' (push_all r [m] s)"
  by (simp add: enqueue_message_def mc_enqueue_message_def room_def push_all_def upd_remote_def Let_def not_le)

lemma room_push_all [simp]:
  "room (push_all r ms s) r' k = (if r' = r then room s r (length ms + k) else room s r' k)"
  by (simp add: room_def add.assoc)

lemma room_less: "room s r k \<Longrightarrow> j \<le> k \<Longrightarrow> room s r j"
  by (simp add: room_def)

lemma mfold_enqueue_room:
  "room s r (length ks) \<Longrightarrow>
   mfold (\<lambda>k. enqueue_message H r (mk k)) ks s = Some (push_all r (map mk ks) s)"
proof (induction ks arbitrary: s)
  case Nil
  show ?case by simp
next
  case (Cons k ks)
  from Cons.prems have r1: "room s r 1" by (simp add: room_def)
  from Cons.prems have "room (push_all r [mk k] s) r (length ks)" by simp
  then show ?case by (simp add: enqueue_message_room [OF r1] Cons.IH)
qed

lemma transfer_modifiers_room:
  assumes "room_opt s from (length modkeys)" "room_opt s to (length modkeys)" "from \<noteq> to"
  shows "transfer_modifiers H from to modkeys s = Some (modifiers_ideal from to modkeys s)"
  using assms
  by (cases "from"; cases to)
     (simp_all add: transfer_modifiers_def modifiers_ideal_def push_opt_def room_opt_def
        mfold_enqueue_room)

lemma transfer_clipboard_room:
  assumes "room_opt s from 1" "room_opt s to 1"
    "to \<noteq> None \<longrightarrow> length (get_clipboard_text s) \<le> UINT32_MAX"
  shows "transfer_clipboard H from to s = Some (clipboard_ideal from to s)"
  using assms
  by (cases "from"; cases to)
     (simp_all add: transfer_clipboard_def clipboard_ideal_def room_opt_def enqueue_message_room Let_def)

lemma fade_schedule_fields [simp]:
  "cfg (fade_schedule node evs s) = cfg s"
  "focused_remote (fade_schedule node evs s) = focused_remote s"
  "plat (fade_schedule node evs s) = plat s"
  "microtime (fade_schedule node evs s) = microtime s"
  "stderr_log (fade_schedule node evs s) = stderr_log s"
  "saved_master_mousepos (fade_schedule node evs s) = saved_master_mousepos s"
  "master_edgehist (fade_schedule node evs s) = master_edgehist s"
  "msgchan (remotes (fade_schedule node evs s) r') = msgchan (remotes s r')"
  "state (remotes (fade_schedule node evs s) r') = state (remotes s r')"
  "failcount (remotes (fade_schedule node evs s) r') = failcount (remotes s r')"
  "next_reconnect_time (remotes (fade_schedule node evs s) r') = next_reconnect_time (remotes s r')"
  "neighbors (remotes (fade_schedule node evs s) r') = neighbors (remotes s r')"
  "r_alias (remotes (fade_schedule node evs s) r') = r_alias (remotes s r')"
  "sshpid (remotes (fade_schedule node evs s) r') = sshpid (remotes s r')"
  "edgehist (remotes (fade_schedule node evs s) r') = edgehist (remotes s r')"
  by (cases node; simp add: fade_schedule_def upd_remote_def)+

lemma room_fade_schedule [simp]: "room (fade_schedule node evs s) r k = room s r k"
  by (simp add: room_def)

lemma fade_schedule_Nil [simp]: "fade_schedule node [] s = s"
  by (cases node) (simp_all add: fade_schedule_def upd_remote_def)

lemma fade_schedule_Cons:
  "fade_schedule node (e # evs) s =
     fade_schedule node evs (schedule_brightness_change node (fst e) (snd e) s)"
  by (cases node)
     (simp_all add: fade_schedule_def upd_remote_def schedule_brightness_change_def
        schedule_message_def schedule_call_def brightness_message_def brightness_call_def
        new_message_def)

lemma fold_transition_step:
  "schedule_brightness_change node to t (fold (transition_step node from to dur steps now_us) js s) =
     fade_schedule node
       (map (\<lambda>i. (fadd from (fmul (fdiv (i2f i) (i2f steps)) (fsub to from)),
                   now_us + f2u64 (fmul (fdiv (i2f i) (i2f steps)) (u2f dur)))) js @ [(to, t)]) s"
proof (induction js arbitrary: s)
  case Nil
  show ?case by (simp add: fade_schedule_Cons)
next
  case (Cons j js)
  show ?case
    by (simp add: Cons.IH fade_schedule_Cons) (simp add: transition_step_def Let_def)
qed

lemma transition_brightness_room:
  assumes "room_opt s node 1"
  shows "transition_brightness H node from to dur steps s = Some (fade_ideal node from to dur steps s)"
proof (cases node)
  case None
  then show ?thesis
    by (simp add: transition_brightness_def set_node_display_brightness_def fade_ideal_def
          fold_transition_step fade_events_def get_microtime_def set_display_brightness_def
          platform_do_def Let_def)
next
  case (Some r)
  with assms have "room s r 1" by (simp add: room_opt_def)
  then show ?thesis
    using Some
    by (simp add: transition_brightness_def set_node_display_brightness_def send_setbrightness_def
          enqueue_message_room fade_ideal_def fold_transition_step fade_events_def get_microtime_def
          Let_def)
qed

lemma fade_ideal_fields [simp]:
  "cfg (fade_ideal node from to dur steps s) = cfg s"
  "focused_remote (fade_ideal node from to dur steps s) = focused_remote s"
  "microtime (fade_ideal node from to dur steps s) = microtime s"
  "stderr_log (fade_ideal node from to dur steps s) = stderr_log s"
  "saved_master_mousepos (fade_ideal node from to dur steps s) = saved_master_mousepos s"
  "master_edgehist (fade_ideal node from to dur steps s) = master_edgehist s"
  "pointer (plat (fade_ideal node from to dur steps s)) = pointer (plat s)"
  "clipboard (plat (fade_ideal node from to dur steps s)) = clipboard (plat s)"
  "held_modifiers (plat (fade_ideal node from to dur steps s)) = held_modifiers (plat s)"
  "state (remotes (fade_ideal node from to dur steps s) r') = state (remotes s r')"
  "failcount (remotes (fade_ideal node from to dur steps s) r') = failcount (remotes s r')"
  "next_reconnect_time (remotes (fade_ideal node from to dur steps s) r') = next_reconnect_time (remotes s r')"
  "neighbors (remotes (fade_ideal node from to dur steps s) r') = neighbors (remotes s r')"
  "r_alias (remotes (fade_ideal node from to dur steps s) r') = r_alias (remotes s r')"
  "sshpid (remotes (fade_ideal node from to dur steps s) r') = sshpid (remotes s r')"
  "edgehist (remotes (fade_ideal node from to dur steps s) r') = edgehist (remotes s r')"
  by (cases node; simp add: fade_ideal_def set_display_brightness_def platform_do_def)+

lemma sendqueue_fade_ideal [simp]:
  "sendqueue (msgchan (remotes (fade_ideal node from to dur steps s) r)) =
     sendqueue (msgchan (remotes s r))
       @ (if node = Some r then [new_message (MT_SETBRIGHTNESS from)] else [])"
  by (cases node) (auto simp: fade_ideal_def set_display_brightness_def platform_do_def)

lemma room_fade_ideal [simp]:
  "room (fade_ideal node from to dur steps s) r k =
     (if node = Some r then room s r (Suc k) else room s r k)"
  by (simp add: room_def)

lemma indicate_switch_room:
  assumes "room_opt s from 1" "room_opt s to 1"
  shows "indicate_switch H from to s = Some (indicate_ideal from to s)"
proof (cases "fh_type (cfg_focus_hint (cfg s))")
  case FH_NONE
  then show ?thesis by (simp add: indicate_switch_def indicate_ideal_def)
next
  case FH_DIM_INACTIVE
  show ?thesis
  proof (cases "from = to")
    case True
    then show ?thesis
      using FH_DIM_INACTIVE assms
      by (simp add: indicate_switch_def indicate_ideal_def transition_brightness_room Let_def)
  next
    case False
    let ?fh = "cfg_focus_hint (cfg s)"
    let ?s1 = "fade_ideal from 1 (brightness ?fh) (duration ?fh) (fade_steps ?fh) s"
    have "room_opt ?s1 to 1"
      using assms(2) False by (cases to) (auto simp: room_opt_def)
    then show ?thesis
      using FH_DIM_INACTIVE False assms(1)
      by (simp add: indicate_switch_def indicate_ideal_def transition_brightness_room Let_def)
  qed
next
  case FH_FLASH_ACTIVE
  then show ?thesis
    using assms by (simp add: indicate_switch_def indicate_ideal_def transition_brightness_room Let_def)
qed

lemma indicate_ideal_fields [simp]:
  "cfg (indicate_ideal from to s) = cfg s"
  "focused_remote (indicate_ideal from to s) = focused_remote s"
  "microtime (indicate_ideal from to s) = microtime s"
  "stderr_log (indicate_ideal from to s) = stderr_log s"
  "saved_master_mousepos (indicate_ideal from to s) = saved_master_mousepos s"
  "master_edgehist (indicate_ideal from to s) = master_edgehist s"
  "pointer (plat (indicate_ideal from to s)) = pointer (plat s)"
  "clipboard (plat (indicate_ideal from to s)) = clipboard (plat s)"
  "held_modifiers (plat (indicate_ideal from to s)) = held_modifiers (plat s)"
  "state (remotes (indicate_ideal from to s) r') = state (remotes s r')"
  "failcount (remotes (indicate_ideal from to s) r') = failcount (remotes s r')"
  "next_reconnect_time (remotes (indicate_ideal from to s) r') = next_reconnect_time (remotes s r')"
  "neighbors (remotes (indicate_ideal from to s) r') = neighbors (remotes s r')"
  "r_alias (remotes (indicate_ideal from to s) r') = r_alias (remotes s r')"
  "sshpid (remotes (indicate_ideal from to s) r') = sshpid (remotes s r')"
  "edgehist (remotes (indicate_ideal from to s) r') = edgehist (remotes s r')"
  by (cases "fh_type (cfg_focus_hint (cfg s))"; simp add: indicate_ideal_def Let_def)+

lemma sendqueue_indicate_ideal [simp]:
  "sendqueue (msgchan (remotes (indicate_ideal from to s) r)) =
     sendqueue (msgchan (remotes s r)) @ indicate_msgs (cfg s) from to r"
  by (cases "fh_type (cfg_focus_hint (cfg s))")
     (auto simp: indicate_ideal_def indicate_msgs_def Let_def)

lemma length_indicate_msgs: "length (indicate_msgs c from to r) \<le> 1"
  by (cases "fh_type (cfg_focus_hint c)") (auto simp: indicate_msgs_def Let_def)

lemma focus_boundary_fields [simp]:
  "cfg (focus_boundary to s) = cfg s"
  "focused_remote (focus_boundary to s) = focused_remote s"
  "remotes (focus_boundary to s) = remotes s"
  "microtime (focus_boundary to s) = microtime s"
  "stderr_log (focus_boundary to s) = stderr_log s"
  "scheduled_calls (focus_boundary to s) = scheduled_calls s"
  "master_edgehist (focus_boundary to s) = master_edgehist s"
  "clipboard (plat (focus_boundary to s)) = clipboard (plat s)"
  "held_modifiers (plat (focus_boundary to s)) = held_modifiers (plat s)"
  by (simp_all add: focus_boundary_def Let_def set_mousepos_def grab_inputs_def ungrab_inputs_def
        platform_do_def)

lemma room_focus_boundary [simp]: "room (focus_boundary to s) r k = room s r k"
  by (simp add: room_def)

lemma clipboard_ideal_fields [simp]:
  "cfg (clipboard_ideal from to s) = cfg s"
  "focused_remote (clipboard_ideal from to s) = focused_remote s"
  "microtime (clipboard_ideal from to s) = microtime s"
  "plat (clipboard_ideal from to s) = plat s"
  "scheduled_calls (clipboard_ideal from to s) = scheduled_calls s"
  "state (remotes (clipboard_ideal from to s) r') = state (remotes s r')"
  "failcount (remotes (clipboard_ideal from to s) r') = failcount (remotes s r')"
  "next_reconnect_time (remotes (clipboard_ideal from to s) r') = next_reconnect_time (remotes s r')"
  "scheduled_messages (remotes (clipboard_ideal from to s) r') = scheduled_messages (remotes s r')"
  by (simp_all add: clipboard_ideal_def elog_def split: option.splits)

lemma sendqueue_clipboard_ideal [simp]:
  "sendqueue (msgchan (remotes (clipboard_ideal from to s) r)) =
     sendqueue (msgchan (remotes s r)) @ clipboard_msgs from to (get_clipboard_text s) r"
  by (auto simp: clipboard_ideal_def clipboard_msgs_def elog_def split: option.splits)

lemma modifiers_ideal_fields [simp]:
  "cfg (modifiers_ideal from to ks s) = cfg s"
  "focused_remote (modifiers_ideal from to ks s) = focused_remote s"
  "microtime (modifiers_ideal from to ks s) = microtime s"
  "plat (modifiers_ideal from to ks s) = plat s"
  "scheduled_calls (modifiers_ideal from to ks s) = scheduled_calls s"
  "state (remotes (modifiers_ideal from to ks s) r') = state (remotes s r')"
  "failcount (remotes (modifiers_ideal from to ks s) r') = failcount (remotes s r')"
  "next_reconnect_time (remotes (modifiers_ideal from to ks s) r') = next_reconnect_time (remotes s r')"
  "scheduled_messages (remotes (modifiers_ideal from to ks s) r') = scheduled_messages (remotes s r')"
  by (simp_all add: modifiers_ideal_def push_opt_def split: option.splits)

lemma sendqueue_modifiers_ideal [simp]:
  "sendqueue (msgchan (remotes (modifiers_ideal from to ks s) r)) =
     sendqueue (msgchan (remotes s r)) @ modifier_msgs from to ks r"
  by (auto simp: modifiers_ideal_def modifier_msgs_def push_opt_def split: option.splits)

lemma length_clipboard_msgs: "length (clipboard_msgs from to text r) \<le> 1"
  by (simp add: clipboard_msgs_def split: option.splits)

lemma room_opt_clipboard_ideal:
  assumes "room_opt s node (Suc k)"
  shows "room_opt (clipboard_ideal from to s) node k"
proof (cases node)
  case None
  then show ?thesis by (simp add: room_opt_def)
next
  case (Some a)
  with assms have "Suc (length (sendqueue (msgchan (remotes s a))) + k) \<le> max_send_backlog (cfg s)"
    by (simp add: room_opt_def room_def)
  moreover have "length (clipboard_msgs from to (get_clipboard_text s) a) \<le> 1"
    by (rule length_clipboard_msgs)
  ultimately show ?thesis using Some by (simp add: room_opt_def room_def)
qed

lemma focus_commit_room:
  assumes ne: "to \<noteq> focused_remote s"
    and rf: "room_opt s (focused_remote s) (Suc (length modkeys))"
    and rt: "room_opt s to (Suc (length modkeys))"
    and clip: "to \<noteq> None \<longrightarrow> length (get_clipboard_text s) \<le> UINT32_MAX"
  shows "focus_commit H to modkeys s = Some (1, commit_ideal to modkeys s)"
proof -
  let ?s3 = "focus_boundary to s"
  let ?from = "focused_remote s"
  have c3: "to \<noteq> None \<longrightarrow> length (get_clipboard_text ?s3) \<le> UINT32_MAX"
    using clip by (simp add: get_clipboard_text_def)
  have rf3: "room_opt ?s3 ?from 1" and rt3: "room_opt ?s3 to 1"
    using rf rt by (auto simp: room_opt_def room_def split: option.splits)
  have tc: "transfer_clipboard H ?from to ?s3 = Some (clipboard_ideal ?from to ?s3)"
    using rf3 rt3 c3 by (rule transfer_clipboard_room)
  let ?s4 = "clipboard_ideal ?from to ?s3"
  have rf4: "room_opt ?s4 ?from (length modkeys)"
    using rf by (intro room_opt_clipboard_ideal) (simp add: room_opt_def split: option.splits)
  have rt4: "room_opt ?s4 to (length modkeys)"
    using rt by (intro room_opt_clipboard_ideal) (simp add: room_opt_def split: option.splits)
  have tm: "transfer_modifiers H ?from to modkeys ?s4 = Some (modifiers_ideal ?from to modkeys ?s4)"
    using rf4 rt4 ne by (intro transfer_modifiers_room) auto
  show ?thesis
    by (simp add: focus_commit_def Let_def tc tm commit_ideal_def)
qed

lemma room_opt_indicate_ideal:
  assumes "room_opt s node (Suc k)"
  shows "room_opt (indicate_ideal from to s) node k"
proof (cases node)
  case None
  then show ?thesis by (simp add: room_opt_def)
next
  case (Some a)
  with assms have "Suc (length (sendqueue (msgchan (remotes s a))) + k) \<le> max_send_backlog (cfg s)"
    by (simp add: room_opt_def room_def)
  moreover have "length (indicate_msgs (cfg s) from to a) \<le> 1"
    by (rule length_indicate_msgs)
  ultimately show ?thesis using Some by (simp add: room_opt_def room_def)
qed

lemma room_opt_less: "room_opt s node k \<Longrightarrow> j \<le> k \<Longrightarrow> room_opt s node j"
  by (cases node) (simp_all add: room_opt_def room_def)

lemma focus_switch_room:
  assumes rf: "room_opt s (focused_remote s) (Suc (Suc (length modkeys)))"
    and rt: "room_opt s to (Suc (Suc (length modkeys)))"
    and clip: "to \<noteq> None \<longrightarrow> length (get_clipboard_text s) \<le> UINT32_MAX"
  shows "focus_switch H to modkeys from_hotkey s = Some (switch_ideal to modkeys from_hotkey s)"
proof (cases "indication_due s to from_hotkey")
  case False
  then have "to = focused_remote s" by (simp add: indication_due_def)
  with False show ?thesis
    by (auto simp: focus_switch_def switch_ideal_def indication_due_def)
next
  case True
  let ?s1 = "indicate_ideal (focused_remote s) to s"
  have ind: "indicate_switch H (focused_remote s) to s = Some ?s1"
    using rf rt by (intro indicate_switch_room) (auto elim: room_opt_less)
  show ?thesis
  proof (cases "to = focused_remote s")
    case same: True
    with True ind show ?thesis
      by (simp add: focus_switch_def switch_ideal_def indication_due_def)
  next
    case diff: False
    have "focus_commit H to modkeys ?s1 = Some (1, commit_ideal to modkeys ?s1)"
    proof (rule focus_commit_room)
      show "to \<noteq> focused_remote ?s1" using diff by simp
      show "room_opt ?s1 (focused_remote ?s1) (Suc (length modkeys))"
        using rf by (simp add: room_opt_indicate_ideal)
      show "room_opt ?s1 to (Suc (length modkeys))"
        using rt by (simp add: room_opt_indicate_ideal)
      show "to \<noteq> None \<longrightarrow> length (get_clipboard_text ?s1) \<le> UINT32_MAX"
        using clip by (simp add: get_clipboard_text_def)
    qed
    with True ind diff show ?thesis
      by (simp add: focus_switch_def switch_ideal_def indication_due_def)
  qed
qed

lemma commit_ideal_fields [simp]:
  "cfg (commit_ideal to ks s) = cfg s"
  "focused_remote (commit_ideal to ks s) = to"
  "microtime (commit_ideal to ks s) = microtime s"
  "scheduled_calls (commit_ideal to ks s) = scheduled_calls s"
  "state (remotes (commit_ideal to ks s) r') = state (remotes s r')"
  "failcount (remotes (commit_ideal to ks s) r') = failcount (remotes s r')"
  "next_reconnect_time (remotes (commit_ideal to ks s) r') = next_reconnect_time (remotes s r')"
  "scheduled_messages (remotes (commit_ideal to ks s) r') = scheduled_messages (remotes s r')"
  by (simp_all add: commit_ideal_def)

lemma sendqueue_commit_ideal [simp]:
  "sendqueue (msgchan (remotes (commit_ideal to ks s) r)) =
     sendqueue (msgchan (remotes s r))
       @ clipboard_msgs (focused_remote s) to (get_clipboard_text s) r
       @ modifier_msgs (focused_remote s) to ks r"
  by (simp add: commit_ideal_def get_clipboard_text_def)




lemma is_setclipboard_simps [simp]:
  "is_setclipboard (new_message (MT_SETCLIPBOARD text))"
  "\<not> is_setclipboard (new_message MT_GETCLIPBOARD)"
  "\<not> is_setclipboard (new_message (MT_SETBRIGHTNESS f))"
  "\<not> is_setclipboard (new_message (MT_KEYEVENT k pr))"
  by (simp_all add: is_setclipboard_def new_message_def)

lemma filter_setclipboard_indicate [simp]:
  "filter is_setclipboard (indicate_msgs c from to r) = []"
  by (cases "fh_type (cfg_focus_hint c)") (simp_all add: indicate_msgs_def Let_def)

lemma filter_setclipboard_modifiers [simp]:
  "filter is_setclipboard (modifier_msgs from to ks r) = []"
  by (auto simp: modifier_msgs_def filter_empty_conv)


subsection \<open>Runs in which a switch overflows the send backlog\<close>

lemmas run_defs = exec_defs action_cb_def focus_node_def focus_switch_def focus_commit_def
  focus_boundary_def focus_neighbor_def focus_master_def indicate_switch_def transfer_clipboard_def
  transfer_modifiers_def fail_remote_body_def disconnect_remote_def mc_sent_def
  mc_have_outbound_data_def send_keyevent_def UINT32_MAX_def MAX_RECONNECT_ATTEMPTS_def
  MAX_RECONNECT_INTERVAL_def RECONNECT_INTERVAL_UNIT_def reconnect_interval_def

lemma demo_full_trace:
  "Option.bind (startup 1 [100] demo_flash)
     (run_events ext 1
        [Ev_write 0 1 1, Ev_read 0 1 \<lparr>body = MT_READY, sendtime = 0\<rparr>,
         Ev_hotkey (AT_SWITCHTO (NT_REMOTE 0)) []]) = Some demo_full"
  by (simp add: run_defs demo_flash_def demo_full_def demo_defs Let_def)

lemma demo_full_reachable: "reachable demo_full"
  by (rule reachable_trace [OF _ _ demo_full_trace])
     (simp_all add: parsed_def demo_flash_def demo_defs)

lemma focused_failed_reachable:
  "\<exists>s. reachable s \<and> focused_remote s = Some 0 \<and> state (remotes s 0) = CS_FAILED"
proof -
  have "map_option (\<lambda>s. (focused_remote s, state (remotes s 0)))
     (Option.bind (startup 1 [100] demo0)
        (run_events chain_ext 1
           [Ev_write 0 1 1, Ev_read 0 1 \<lparr>body = MT_READY, sendtime = 0\<rparr>,
            Ev_hotkey (AT_SWITCHTO (NT_REMOTE 0)) [],
            Ev_hotkey (AT_SWITCHTO NT_MASTER) [],
            Ev_hotkey (AT_SWITCHTO (NT_REMOTE 0)) []]))
   = Some (Some 0, CS_FAILED)"
    by (simp add: run_defs demo_defs Let_def)
  then obtain s where
    s: "Option.bind (startup 1 [100] demo0)
        (run_events chain_ext 1
           [Ev_write 0 1 1, Ev_read 0 1 \<lparr>body = MT_READY, sendtime = 0\<rparr>,
            Ev_hotkey (AT_SWITCHTO (NT_REMOTE 0)) [],
            Ev_hotkey (AT_SWITCHTO NT_MASTER) [],
            Ev_hotkey (AT_SWITCHTO (NT_REMOTE 0)) []]) = Some s"
    and p: "focused_remote s = Some 0" "state (remotes s 0) = CS_FAILED"
    by (elim map_option_eq_Some [THEN iffD1, THEN exE]) simp
  have "reachable s"
    by (rule reachable_trace [OF _ _ s]) (simp_all add: parsed_def demo_defs)
  with p show ?thesis by blast
qed


subsection \<open>Edge events\<close>

lemma set_edgehist_fields [simp]:
  "cfg (set_edgehist h dir es s) = cfg s"
  "focused_remote (set_edgehist h dir es s) = focused_remote s"
  "plat (set_edgehist h dir es s) = plat s"
  "microtime (set_edgehist h dir es s) = microtime s"
  "scheduled_calls (set_edgehist h dir es s) = scheduled_calls s"
  "stderr_log (set_edgehist h dir es s) = stderr_log s"
  "saved_master_mousepos (set_edgehist h dir es s) = saved_master_mousepos s"
  "sendqueue (msgchan (remotes (set_edgehist h dir es s) r)) = sendqueue (msgchan (remotes s r))"
  "state (remotes (set_edgehist h dir es s) r) = state (remotes s r)"
  "neighbors (remotes (set_edgehist h dir es s) r) = neighbors (remotes s r)"
  "get_edgehist h dir (set_edgehist h dir es s) = es"
  by (cases h; simp add: set_edgehist_def get_edgehist_def upd_remote_def)+

lemma room_set_edgehist [simp]:
  "room (set_edgehist h dir es s) r k = room s r k"
  "room_opt (set_edgehist h dir es s) node k = room_opt s node k"
  by (simp_all add: room_def room_opt_def split: option.splits)



section \<open>The claims\<close>

text \<open>
  C1 fails on a run of the loop. The channel holds at most two unsent messages and the
  peer reads nothing: the remote becomes ready, a hotkey focuses it (SETCLIPBOARD is
  queued), a hotkey returns to the master (GETCLIPBOARD is queued), and a third hotkey
  switches to the remote again. \<^verbatim>\<open>focus_node\<close> has tested the remote's state before the
  switch; the SETCLIPBOARD of \<^verbatim>\<open>transfer_clipboard\<close> then exceeds the backlog,
  \<^verbatim>\<open>enqueue_message\<close> fails the remote (the master is focused, so \<^verbatim>\<open>disconnect_remote\<close>
  moves no focus), and \<^verbatim>\<open>focus_node\<close> goes on to make the failed remote the focused
  node.
\<close>
theorem focus_lands_on_failed_remote:
  "map_option (\<lambda>s. (focused_remote s, state (remotes s 0)))
     (Option.bind (startup 1 [100] demo0)
        (run_events chain_ext 1
           [Ev_write 0 1 1, Ev_read 0 1 \<lparr>body = MT_READY, sendtime = 0\<rparr>,
            Ev_hotkey (AT_SWITCHTO (NT_REMOTE 0)) [],
            Ev_hotkey (AT_SWITCHTO NT_MASTER) [],
            Ev_hotkey (AT_SWITCHTO (NT_REMOTE 0)) []]))
   = Some (Some 0, CS_FAILED)"
  by (simp add: run_defs demo_defs Let_def)



text \<open>
  C3, as the code has it. \<^verbatim>\<open>run_scheduled_calls\<close> takes the head entry off the queue
  before it invokes it and goes on while the head is due; when the pass returns, no due
  entry is left at the head; and on a time-ordered queue of the master's own callbacks
  every entry due at \<open>when\<close> fires, in queue order, and the later ones stay. The loop
  reads the queue again after every callback, so a call that a callback schedules for a
  time not after \<open>when\<close> runs in the same pass, not in the next.
\<close>
theorem run_scheduled_calls_pass:
  "(scheduled_calls s = call # rest \<and> calltime call \<le> when \<longrightarrow>
      run_scheduled_calls ext when s =
        run_scheduled_calls ext when (call_fn ext call (s\<lparr>scheduled_calls := rest\<rparr>)))
   \<and> (run_scheduled_calls ext when s = Some s' \<longrightarrow>
        (case scheduled_calls s' of [] \<Rightarrow> True | c # cs \<Rightarrow> when < calltime c))
   \<and> (sorted (map calltime (scheduled_calls s))
        \<and> (\<forall>c \<in> set (scheduled_calls s). fn c = Set_brightness_cb) \<longrightarrow>
        run_scheduled_calls ext when s =
          Some ((fold (\<lambda>c. set_brightness_cb (arg c))
                   (filter (\<lambda>c. calltime c \<le> when) (scheduled_calls s)) s)
                 \<lparr>scheduled_calls := filter (\<lambda>c. when < calltime c) (scheduled_calls s)\<rparr>))"
proof (intro conjI impI)
  assume "scheduled_calls s = call # rest \<and> calltime call \<le> when"
  then show "run_scheduled_calls ext when s =
        run_scheduled_calls ext when (call_fn ext call (s\<lparr>scheduled_calls := rest\<rparr>))"
    by (subst run_scheduled_calls.simps) simp
next
  assume "run_scheduled_calls ext when s = Some s'"
  then show "case scheduled_calls s' of [] \<Rightarrow> True | c # cs \<Rightarrow> when < calltime c"
    by (rule run_done)
next
  assume a: "sorted (map calltime (scheduled_calls s))
        \<and> (\<forall>c \<in> set (scheduled_calls s). fn c = Set_brightness_cb)"
  then have own: "\<forall>c \<in> set (scheduled_calls s). fn c = Set_brightness_cb" by simp
  from a show "run_scheduled_calls ext when s =
          Some ((fold (\<lambda>c. set_brightness_cb (arg c))
                   (filter (\<lambda>c. calltime c \<le> when) (scheduled_calls s)) s)
                 \<lparr>scheduled_calls := filter (\<lambda>c. when < calltime c) (scheduled_calls s)\<rparr>)"
    by (simp add: run_own [OF own refl] sorted_takeWhile_filter sorted_dropWhile_filter)
qed

theorem run_scheduled_calls_pass_witness:
  "scheduled_calls demo_calls =
       \<lparr>fn = Set_brightness_cb, arg = 1 / 2, calltime = 5\<rparr>
         # [\<lparr>fn = Set_brightness_cb, arg = 3 / 4, calltime = 10\<rparr>,
            \<lparr>fn = Set_brightness_cb, arg = 1, calltime = 20\<rparr>]
   \<and> sorted (map calltime (scheduled_calls demo_calls))
   \<and> list_all (\<lambda>c. fn c = Set_brightness_cb) (scheduled_calls demo_calls)
   \<and> run_scheduled_calls chain_ext 10 demo_calls = Some demo_calls_after
   \<and> map calltime (scheduled_calls demo_calls_after) = [20]"
proof -
  note t = run_scheduled_calls_pass [of demo_calls
          "\<lparr>fn = Set_brightness_cb, arg = 1 / 2, calltime = 5\<rparr>"
          "[\<lparr>fn = Set_brightness_cb, arg = 3 / 4, calltime = 10\<rparr>,
            \<lparr>fn = Set_brightness_cb, arg = 1, calltime = 20\<rparr>]" 10 chain_ext demo_calls_after]
  have q: "scheduled_calls demo_calls =
       \<lparr>fn = Set_brightness_cb, arg = 1 / 2, calltime = 5\<rparr>
         # [\<lparr>fn = Set_brightness_cb, arg = 3 / 4, calltime = 10\<rparr>,
            \<lparr>fn = Set_brightness_cb, arg = 1, calltime = 20\<rparr>]"
    by (simp add: demo_calls_def)
  have own: "sorted (map calltime (scheduled_calls demo_calls))
      \<and> (\<forall>c \<in> set (scheduled_calls demo_calls). fn c = Set_brightness_cb)"
    by (simp add: q)
  have "(fold (\<lambda>c. set_brightness_cb (arg c))
            (filter (\<lambda>c. calltime c \<le> 10) (scheduled_calls demo_calls)) demo_calls)
          \<lparr>scheduled_calls := filter (\<lambda>c. 10 < calltime c) (scheduled_calls demo_calls)\<rparr>
        = demo_calls_after"
    by (simp add: q) (simp add: demo_calls_def demo_calls_after_def demo_defs set_brightness_cb_def platform_defs)
  with t own have r: "run_scheduled_calls chain_ext 10 demo_calls = Some demo_calls_after"
    by simp
  have "map calltime (scheduled_calls demo_calls_after) = [20]"
    by (simp add: demo_calls_after_def)
  with q own r show ?thesis by (simp add: list_all_iff)
qed

text \<open>
  C3 as stated fails: a callback due at 5 schedules a further call for time 3; the pass
  for time 10 runs that call too (its log line is there, the queue is empty).
\<close>
theorem callback_scheduled_call_runs_in_same_pass:
  "run_scheduled_calls chain_ext 10
     (demo0\<lparr>scheduled_calls := [\<lparr>fn = Extern_fn 0, arg = 0, calltime = 5\<rparr>]\<rparr>)
   = Some (demo0\<lparr>stderr_log := [''second call ran'']\<rparr>)"
  by (simp add: run_scheduled_calls.simps call_fn_def chain_ext_def schedule_call_def elog_def
        demo_defs)

text \<open>
  C4, as the code has it. On a real switch whose messages fit the send backlogs,
  \<^verbatim>\<open>focus_node\<close> returns 1 with the target focused, and every remote's outbound buffer
  grows by the indication's messages, then the clipboard message, then the modifier
  messages. The clipboard message is GETCLIPBOARD for the remote that is left; it is
  SETCLIPBOARD with the local clipboard for the remote that is entered only when the
  master is left. On a switch from remote to remote the new remote gets no SETCLIPBOARD
  from \<^verbatim>\<open>focus_node\<close>: \<^verbatim>\<open>transfer_clipboard\<close> takes its second branch only when \<^verbatim>\<open>from\<close> is null.
\<close>
theorem focus_node_clipboard_transfer:
  assumes target: "n = NT_MASTER \<and> to = None
                   \<or> (\<exists>t. n = NT_REMOTE t \<and> to = Some t \<and> state (remotes s t) = CS_CONNECTED)"
    and real: "to \<noteq> focused_remote s"
    and rf: "room_opt s (focused_remote s) (Suc (Suc (length modkeys)))"
    and rt: "room_opt s to (Suc (Suc (length modkeys)))"
    and clip: "length (clipboard (plat s)) \<le> UINT32_MAX"
  shows "\<exists>s'. focus_node H n modkeys from_hotkey s = Some (1, s')
           \<and> focused_remote s' = to
           \<and> sendqueue (msgchan (remotes s' r)) =
               sendqueue (msgchan (remotes s r))
                 @ indicate_msgs (cfg s) (focused_remote s) to r
                 @ (if focused_remote s = Some r then [new_message MT_GETCLIPBOARD]
                    else if focused_remote s = None \<and> to = Some r
                    then [new_message (MT_SETCLIPBOARD (clipboard (plat s)))]
                    else [])
                 @ modifier_msgs (focused_remote s) to modkeys r
           \<and> filter is_setclipboard (sendqueue (msgchan (remotes s' r))) =
               filter is_setclipboard (sendqueue (msgchan (remotes s r)))
                 @ (if focused_remote s = None \<and> to = Some r
                    then [new_message (MT_SETCLIPBOARD (clipboard (plat s)))] else [])"
proof -
  have fs: "focus_switch H to modkeys from_hotkey s = Some (switch_ideal to modkeys from_hotkey s)"
    using rf rt clip by (intro focus_switch_room) (simp_all add: get_clipboard_text_def)
  have fn: "focus_node H n modkeys from_hotkey s = focus_switch H to modkeys from_hotkey s"
    using target by (auto simp: focus_node_def)
  let ?s1 = "indicate_ideal (focused_remote s) to s"
  have sw: "switch_ideal to modkeys from_hotkey s = (1, commit_ideal to modkeys ?s1)"
    using real by (simp add: switch_ideal_def indication_due_def Let_def)
  have cm: "clipboard_msgs (focused_remote s) to (clipboard (plat s)) r =
              (if focused_remote s = Some r then [new_message MT_GETCLIPBOARD]
               else if focused_remote s = None \<and> to = Some r
               then [new_message (MT_SETCLIPBOARD (clipboard (plat s)))]
               else [])"
    by (auto simp: clipboard_msgs_def split: option.splits)
  show ?thesis
    unfolding fn fs sw
    by (rule exI [of _ "commit_ideal to modkeys ?s1"])
       (simp add: get_clipboard_text_def cm)
qed

theorem focus_node_clipboard_transfer_witness:
  "(\<exists>s'. focus_node (fail_remote 0) (NT_REMOTE 1) [42] True demo_two = Some (1, s')
         \<and> focused_remote s' = Some 1
         \<and> sendqueue (msgchan (remotes s' 0)) =
             [new_message MT_GETCLIPBOARD, new_message (MT_KEYEVENT 42 PR_RELEASE)]
         \<and> filter is_setclipboard (sendqueue (msgchan (remotes s' 0))) = [])
   \<and> (\<exists>s'. focus_node (fail_remote 0) (NT_REMOTE 1) [] True demo_two_master
             = Some (1, s')
         \<and> focused_remote s' = Some 1
         \<and> sendqueue (msgchan (remotes s' 1)) = [new_message (MT_SETCLIPBOARD ''hello'')]
         \<and> filter is_setclipboard (sendqueue (msgchan (remotes s' 1))) =
             [new_message (MT_SETCLIPBOARD ''hello'')])"
proof -
  have t1: "NT_REMOTE 1 = NT_MASTER \<and> Some 1 = None
             \<or> (\<exists>t. NT_REMOTE 1 = NT_REMOTE t \<and> Some (1 :: rid) = Some t
                    \<and> state (remotes demo_two t) = CS_CONNECTED)"
    and r1: "Some 1 \<noteq> focused_remote demo_two"
    and rf1: "room_opt demo_two (focused_remote demo_two) (Suc (Suc (length [42 :: nat])))"
    and rt1: "room_opt demo_two (Some 1) (Suc (Suc (length [42 :: nat])))"
    and c1: "length (clipboard (plat demo_two)) \<le> UINT32_MAX"
    and v1: "focused_remote demo_two = Some 0" "\<And>r. sendqueue (msgchan (remotes demo_two r)) = []"
      "\<And>from to r. indicate_msgs (cfg demo_two) from to r = []"
    by (simp_all add: demo_two_def demo_defs room_opt_def room_def UINT32_MAX_def
          indicate_msgs_def)
  let ?m = "demo_two_master"
  have t2: "NT_REMOTE 1 = NT_MASTER \<and> Some 1 = None
             \<or> (\<exists>t. NT_REMOTE 1 = NT_REMOTE t \<and> Some (1 :: rid) = Some t
                    \<and> state (remotes ?m t) = CS_CONNECTED)"
    and r2: "Some 1 \<noteq> focused_remote ?m"
    and rf2: "room_opt ?m (focused_remote ?m) (Suc (Suc (length ([] :: nat list))))"
    and rt2: "room_opt ?m (Some 1) (Suc (Suc (length ([] :: nat list))))"
    and c2: "length (clipboard (plat ?m)) \<le> UINT32_MAX"
    and v2: "focused_remote ?m = None" "\<And>r. sendqueue (msgchan (remotes ?m r)) = []"
      "\<And>from to r. indicate_msgs (cfg ?m) from to r = []" "clipboard (plat ?m) = ''hello''"
    by (simp_all add: demo_two_master_def demo_two_def demo_defs room_opt_def room_def
          UINT32_MAX_def indicate_msgs_def)
  have a: "\<exists>s'. focus_node (fail_remote 0) (NT_REMOTE 1) [42] True demo_two = Some (1, s')
         \<and> focused_remote s' = Some 1
         \<and> sendqueue (msgchan (remotes s' 0)) =
             [new_message MT_GETCLIPBOARD, new_message (MT_KEYEVENT 42 PR_RELEASE)]
         \<and> filter is_setclipboard (sendqueue (msgchan (remotes s' 0))) = []"
    using focus_node_clipboard_transfer [OF t1 r1 rf1 rt1 c1, of "fail_remote 0" True 0]
    by (simp add: v1 modifier_msgs_def)
  have b: "\<exists>s'. focus_node (fail_remote 0) (NT_REMOTE 1) [] True ?m = Some (1, s')
         \<and> focused_remote s' = Some 1
         \<and> sendqueue (msgchan (remotes s' 1)) = [new_message (MT_SETCLIPBOARD ''hello'')]
         \<and> filter is_setclipboard (sendqueue (msgchan (remotes s' 1))) =
             [new_message (MT_SETCLIPBOARD ''hello'')]"
    using focus_node_clipboard_transfer [OF t2 r2 rf2 rt2 c2, of "fail_remote 0" True 1]
    by (simp add: v2 modifier_msgs_def)
  from a b show ?thesis by (intro conjI)
qed

text \<open>
  C4 as stated fails: with the first of two connected remotes focused, a switch to the
  second enqueues GETCLIPBOARD to the first and nothing to the second.
\<close>
theorem remote_to_remote_switch_sends_no_setclipboard:
  "map_option (\<lambda>(d, s'). (d, focused_remote s', sendqueue (msgchan (remotes s' 0)),
                              sendqueue (msgchan (remotes s' 1))))
     (focus_node (fail_remote 1) (NT_REMOTE 1) [] True demo_two)
   = Some (1, Some 1, [new_message MT_GETCLIPBOARD], [])"
  by (simp add: focus_node_def focus_switch_def focus_commit_def focus_boundary_def
        indicate_switch_def transfer_clipboard_def transfer_modifiers_def enqueue_message_def
        mc_enqueue_message_def upd_remote_def new_message_def platform_defs
        demo_two_def demo_defs Let_def)



text \<open>
  C6. In every reachable state the scheduled calls and every remote's scheduled messages
  are in non-decreasing time order, and \<^verbatim>\<open>schedule_call\<close> and \<^verbatim>\<open>schedule_message\<close> put a
  new entry after all entries whose time is not later than its own (so after those of
  equal time, in insertion order) and before the later ones.
\<close>
theorem scheduled_queues_ordered:
  assumes "reachable s"
  shows "sorted (map calltime (scheduled_calls s))
     \<and> sorted (map sendtime (scheduled_messages (remotes s r)))
     \<and> scheduled_calls (schedule_call f a w s) =
         filter (\<lambda>c. calltime c \<le> w) (scheduled_calls s)
           @ \<lparr>fn = f, arg = a, calltime = w\<rparr> # filter (\<lambda>c. w < calltime c) (scheduled_calls s)
     \<and> scheduled_messages (remotes (schedule_message r m s) r) =
         filter (\<lambda>x. sendtime x \<le> sendtime m) (scheduled_messages (remotes s r))
           @ m # filter (\<lambda>x. sendtime m < sendtime x) (scheduled_messages (remotes s r))"
proof -
  from assms have q: "qinv s" by (rule reachable_qinv)
  then have c: "sorted (map calltime (scheduled_calls s))"
    and m: "sorted (map sendtime (scheduled_messages (remotes s r)))"
    by (simp_all add: qinv_def)
  show ?thesis
    using c m
    by (simp add: schedule_call_def schedule_message_def upd_remote_def insert_call_eq
          insert_message_eq sorted_takeWhile_filter sorted_dropWhile_filter)
qed

theorem scheduled_queues_ordered_witness:
  "reachable demo_ready
   \<and> sorted (map sendtime (scheduled_messages (remotes demo_ready 0)))
   \<and> scheduled_messages
        (remotes (schedule_message 0 \<lparr>body = MT_SETBRIGHTNESS 1, sendtime = 1300000\<rparr> demo_ready) 0)
       = [\<lparr>body = MT_SETBRIGHTNESS (1 / 2), sendtime = 1300000\<rparr>,
          \<lparr>body = MT_SETBRIGHTNESS 1, sendtime = 1300000\<rparr>]
   \<and> scheduled_calls (schedule_call Set_brightness_cb 1 7 demo_ready)
       = [\<lparr>fn = Set_brightness_cb, arg = 1, calltime = 7\<rparr>]"
  using scheduled_queues_ordered [OF demo_ready_reachable, of 0 Set_brightness_cb 1 7
          "\<lparr>body = MT_SETBRIGHTNESS 1, sendtime = 1300000\<rparr>"]
        demo_ready_reachable
  by (simp add: demo_ready_def demo_dim_def demo_defs)

text \<open>
  C8. An edge event of the type recorded last is rejected with status 1 and the history
  is left as it was; an event of the other type is recorded. So the events a history
  accepts, out of any sequence of events offered to it, alternate, starting from the type
  it held: no two adjacent recorded events are of the same type, and the type the
  history holds is that of the last event it accepted.
\<close>
theorem edge_history_alternates:
  "(evtype = last_evtype es \<longrightarrow> record_edgeevent h es evtype t = (1, es))
   \<and> (evtype \<noteq> last_evtype es \<longrightarrow>
        fst (record_edgeevent h es evtype t) = 0
        \<and> last_evtype (snd (record_edgeevent h es evtype t)) = evtype)
   \<and> distinct_adj (last_evtype es # map fst (recorded h es evs))
   \<and> last_evtype (feed h es evs) = last (last_evtype es # map fst (recorded h es evs))"
  using recorded_alt [of es h evs] feed_last [of h es evs]
  by (simp add: record_edgeevent_def Let_def)

theorem edge_history_alternates_witness:
  "record_edgeevent 8 demo_edge_state EE_DEPART 5 = (1, demo_edge_state)
   \<and> fst (record_edgeevent 8 demo_edge_state EE_ARRIVE 5) = 0
   \<and> map fst (recorded 8 demo_edge_state
        [(EE_ARRIVE, 1), (EE_ARRIVE, 2), (EE_DEPART, 3), (EE_DEPART, 4), (EE_ARRIVE, 5)])
      = [EE_ARRIVE, EE_DEPART, EE_ARRIVE]
   \<and> distinct_adj [EE_DEPART, EE_ARRIVE, EE_DEPART, EE_ARRIVE]"
  using edge_history_alternates [of EE_DEPART demo_edge_state 8 5
          "[(EE_ARRIVE, 1), (EE_ARRIVE, 2), (EE_DEPART, 3), (EE_DEPART, 4), (EE_ARRIVE, 5)]"]
        edge_history_alternates [of EE_ARRIVE demo_edge_state 8 5 "[]"]
  by (simp add: record_edgeevent_def demo_edge_state_def Let_def)

text \<open>
  C9 fails in a reachable state. The remote is focused with its backlog at the quota,
  null switches are always indicated and the hint is a flash. A switch to the focused
  remote sends the brightness message of the indication, which exceeds the backlog:
  \<^verbatim>\<open>enqueue_message\<close> fails the remote and \<^verbatim>\<open>disconnect_remote\<close> returns the focus to the
  master (inputs released, pointer restored). Back in \<^verbatim>\<open>focus_node\<close> the target no
  longer equals the focused node, so the call grabs the inputs, warps the pointer to
  the centre, focuses the failed remote and returns 1.
\<close>
theorem null_switch_refocuses_failed_remote:
  "map_option (\<lambda>(d, s'). (d, focused_remote s', state (remotes s' 0), calls (plat s')))
     (focus_node (fail_remote 2) (NT_REMOTE 0) [] True demo_full)
   = Some (1, Some 0, CS_FAILED,
           [Grab_inputs, Set_mousepos (960, 540), Set_display_brightness (1 / 2),
            Ungrab_inputs, Set_mousepos (10, 20), Grab_inputs, Set_mousepos (960, 540)])"
  by (simp add: run_defs demo_full_def demo_flash_def demo_defs Let_def numeral_2_eq_2)

text \<open>
  C10. A SETCLIPBOARD message from a remote that is not CONNECTED only adds a line to the
  log: the clipboard, the platform, the focus and every remote (state, failure counter,
  channel) stay as they were and nothing is enqueued. A message of a type the master
  does not expect, by contrast, fails the remote.
\<close>
theorem setclipboard_from_unconnected_ignored:
  "(state (remotes s r) \<noteq> CS_CONNECTED \<longrightarrow>
      handle_message H r \<lparr>body = MT_SETCLIPBOARD buf, sendtime = t\<rparr> s =
        Some (s\<lparr>stderr_log := stderr_log s @
               [''got unexpected SETCLIPBOARD from non-connected remote ''
                  @ r_alias (remotes s r) @ '', ignoring.'']\<rparr>))
   \<and> handle_message H r \<lparr>body = MT_GETCLIPBOARD, sendtime = t\<rparr> s
       = H r ''unexpected message type'' s"
  by (simp add: handle_message_def elog_def)

theorem setclipboard_from_unconnected_ignored_witness:
  "state (remotes demo0 0) \<noteq> CS_CONNECTED
   \<and> handle_message (fail_remote 1) 0 \<lparr>body = MT_SETCLIPBOARD ''x'', sendtime = 0\<rparr> demo0 =
        Some (demo0\<lparr>stderr_log :=
               [''got unexpected SETCLIPBOARD from non-connected remote r0, ignoring.'']\<rparr>)
   \<and> plat (demo0\<lparr>stderr_log :=
               [''got unexpected SETCLIPBOARD from non-connected remote r0, ignoring.'']\<rparr>) = plat demo0
   \<and> remotes (demo0\<lparr>stderr_log :=
               [''got unexpected SETCLIPBOARD from non-connected remote r0, ignoring.'']\<rparr>) = remotes demo0"
  using setclipboard_from_unconnected_ignored [of demo0 0 "fail_remote 1" "''x''" 0]
  by (simp add: demo_defs)

end
